theory Spec2Isabelle
  imports Complex_Main "HOL-Library.Sublist"
begin

section \<open>NativeSpark AI: the browser-side modules\<close>

text \<open>
  A JavaScript number is modelled by a rational: the progress values of the application are
  percentages, the weight \<open>0.25\<close> is the rational \<open>1/4\<close>, and \<open>Math.round\<close> rounds
  to the nearest integer with ties towards plus infinity. A property that may be missing
  (\<open>undefined\<close>) is an \<open>option\<close>.
\<close>

type_synonym number = rat





subsection \<open>ProgressTracker (progress-tracker, \<open>part_001\<close>)\<close>

record tracker_module =
  name :: string
  completed :: bool
  progress :: "number option"
  order :: nat

text \<open>\<open>this.modules\<close>: an object with the four keys of the constructor, in this order.\<close>

record modules =
  alphabets :: tracker_module
  vocabulary :: tracker_module
  grammar :: tracker_module
  assessment :: tracker_module



















subsection \<open>Strings\<close>

text \<open>
  A JavaScript string is the list of its code units; the model has the strings of code units
  below 256, which hold every label and separator that the code tests for.
  \<open>trim\<close> removes white space and line terminators at both ends: in this range tab, line
  feed, vertical tab, form feed, carriage return, space and no-break space; the class \<open>\s\<close>
  of a regular expression is the same set.
\<close>

definition is_whitespace :: "char \<Rightarrow> bool" where
  "is_whitespace c = (c \<in> set [CHR 0x09, CHR 0x0A, CHR 0x0B, CHR 0x0C, CHR 0x0D, CHR '' '', CHR 0xA0])"

definition trim :: "string \<Rightarrow> string" where
  "trim s = rev (dropWhile is_whitespace (rev (dropWhile is_whitespace s)))"

text \<open>\<open>!s || s.trim() === ''\<close>: the guard against an empty request.\<close>

definition blank :: "string \<Rightarrow> bool" where
  "blank s = (s = [] \<or> trim s = [])"

subsection \<open>Dictionary (\<open>js/dictionary.js\<close>, in \<open>js/page-connection.js\<close>)\<close>

text \<open>
  The result of a lookup is what the dictionary's own \<open>parseAIResponse\<close> builds from the
  response, the word and the two languages; it reads nothing else but the clock, and the
  operations below take it as the parameter \<open>parse\<close>, with the type \<open>'r\<close> of its results.
\<close>

record 'r cache_entry =
  data :: 'r
  timestamp :: int

record 'r Dictionary =
  apiProvider :: string
  apiKey :: "string option"
  apiEndpoint :: string
  supportedLanguages :: "string \<rightharpoonup> string"
  cache :: "string \<rightharpoonup> 'r cache_entry"
  cacheExpiry :: int
  isOpen :: bool
  currentWord :: string
  sourceLang :: string
  targetLang :: string
  isProcessing :: bool

subsection \<open>AIAssistant (\<open>js/ai-assistant.js\<close>)\<close>

record history_entry =
  user :: string
  assistant :: string
  timestamp :: string
  language :: string

record AIAssistant =
  apiProvider :: string
  conversationHistory :: "history_entry list"
  maxHistoryLength :: nat
  isProcessing :: bool
  selectedLanguage :: string

text \<open>
  \<open>xs.slice(-n)\<close>: the last \<open>n\<close> elements, all of them when there are fewer; \<open>-0\<close> is \<open>0\<close>,
  so \<open>slice(-0)\<close> is the whole array.
\<close>

definition slice_from_end :: "'a list \<Rightarrow> nat \<Rightarrow> 'a list" where
  "slice_from_end xs n = (if n = 0 then xs else drop (length xs - n) xs)"

definition addToHistory :: "AIAssistant \<Rightarrow> string \<Rightarrow> string \<Rightarrow> string \<Rightarrow> AIAssistant" where
  "addToHistory st userMessage assistantResponse now =
     (let pushed = conversationHistory st @
                     [\<lparr>user = userMessage, assistant = assistantResponse,
                       timestamp = now, language = selectedLanguage st\<rparr>]
      in if length pushed > maxHistoryLength st
         then st\<lparr>conversationHistory := slice_from_end pushed (maxHistoryLength st)\<rparr>
         else st\<lparr>conversationHistory := pushed\<rparr>)"

text \<open>The assistant as its constructor leaves it.\<close>

definition initial_assistant :: AIAssistant where
  "initial_assistant =
     \<lparr>apiProvider = ''groq'', conversationHistory = [], maxHistoryLength = 10,
      isProcessing = False, selectedLanguage = ''auto''\<rparr>"

subsection \<open>TranslationWidget (translation widget, \<open>part_002\<close>)\<close>

text \<open>
  What the network answers to the request of one translation API during one call of
  \<open>translateWithFallback\<close> (each API is asked at most once in a call): the request fails
  (\<open>fetch\<close> rejects, the status is not ok, the body is not JSON), or the body is read and
  its translated text is there or not.
\<close>

datatype response = Failed | Body "string option"

type_synonym network = "nat \<Rightarrow> response"

text \<open>The widget: \<open>translationCache\<close> (a \<open>Map\<close>), \<open>currentAPIIndex\<close>, and, to speak of the
  requests it makes, the list of the calls of \<open>api.method\<close> made so far, oldest first.\<close>

record TranslationWidget =
  translationCache :: "string \<rightharpoonup> string"
  currentAPIIndex :: nat
  invocations :: "(nat \<times> string) list"

definition translationAPIs :: "string list" where
  "translationAPIs = [''MyMemory'', ''GoogleTranslate'', ''LibreTranslate'']"

text \<open>
  What \<open>translateWithAPI(text, apiIndex)\<close> returns, \<open>None\<close> for \<open>null\<close>. Each of the three
  methods returns the translated text only when it is truthy and \<open>null\<close> otherwise;
  \<open>translateMyMemory\<close> throws when its request fails and \<open>translateWithAPI\<close> catches that,
  the other two catch it themselves. An index outside the list has no \<open>method\<close>: the
  \<open>TypeError\<close> is caught as well.
\<close>

definition api_result :: "network \<Rightarrow> nat \<Rightarrow> string option" where
  "api_result net apiIndex =
     (if apiIndex < length translationAPIs
      then (case net apiIndex of
              Failed \<Rightarrow> None
            | Body None \<Rightarrow> None
            | Body (Some s) \<Rightarrow> if s = [] then None else Some s)
      else None)"

definition translateWithAPI ::
  "network \<Rightarrow> string \<Rightarrow> nat \<Rightarrow> TranslationWidget \<Rightarrow> string option \<times> TranslationWidget" where
  "translateWithAPI net text apiIndex w =
     (if apiIndex < length translationAPIs
      then (api_result net apiIndex, w\<lparr>invocations := invocations w @ [(apiIndex, text)]\<rparr>)
      else (None, w))"

text \<open>A value that may be \<open>null\<close> is truthy when it is a string that is not empty.\<close>

definition truthy :: "string option \<Rightarrow> bool" where
  "truthy t = (case t of None \<Rightarrow> False | Some s \<Rightarrow> s \<noteq> [])"

text \<open>
  The \<open>for\<close> loop of \<open>translateWithFallback\<close> over the indices that remain, with the
  variable \<open>translated\<close>; the \<open>break\<close> ends it.
\<close>

fun fallback_loop ::
  "network \<Rightarrow> string \<Rightarrow> nat list \<Rightarrow> string option \<Rightarrow> TranslationWidget
     \<Rightarrow> string option \<times> TranslationWidget" where
  "fallback_loop net text [] translated w = (translated, w)"
| "fallback_loop net text (i # rest) translated w =
     (if i \<noteq> currentAPIIndex w
      then (case translateWithAPI net text i w of
              (translated', w') \<Rightarrow>
                if truthy translated' \<and> translated' \<noteq> Some text
                then (translated', w'\<lparr>currentAPIIndex := i\<rparr>)
                else fallback_loop net text rest translated' w')
      else fallback_loop net text rest translated w)"

definition translateWithFallback ::
  "network \<Rightarrow> string \<Rightarrow> TranslationWidget \<Rightarrow> string \<times> TranslationWidget" where
  "translateWithFallback net text w =
     (case translationCache w text of
        Some cached \<Rightarrow> (cached, w)
      | None \<Rightarrow>
          (case translateWithAPI net text (currentAPIIndex w) w of
             (translated0, w0) \<Rightarrow>
               (case (if \<not> truthy translated0 \<or> translated0 = Some text
                      then fallback_loop net text [0..<length translationAPIs] translated0 w0
                      else (translated0, w0)) of
                  (translated, w1) \<Rightarrow>
                    (case translated of
                       None \<Rightarrow> (text, w1)
                     | Some t \<Rightarrow>
                         if t \<noteq> []
                         then (t, w1\<lparr>translationCache := (translationCache w1)(text \<mapsto> t)\<rparr>)
                         else (text, w1)))))"

text \<open>The widget as its constructor leaves it, and two states of the network.\<close>

definition initial_widget :: TranslationWidget where
  "initial_widget = \<lparr>translationCache = Map.empty, currentAPIIndex = 0, invocations = []\<rparr>"

definition network_down :: network where
  "network_down = (\<lambda>i. Failed)"

definition network_hola :: network where
  "network_hola = (\<lambda>i. Body (Some ''hola''))"

definition network_second_only :: network where
  "network_second_only = (\<lambda>i. if i = 1 then Body (Some ''hola'') else Failed)"

text \<open>An API gave nothing usable for \<open>text\<close>: \<open>null\<close>, or the text itself.\<close>

definition no_translation :: "string \<Rightarrow> string option \<Rightarrow> bool" where
  "no_translation text t = (t = None \<or> t = Some text)"

text \<open>
  \<open>sendMessage(prompt)\<close> is asynchronous. It runs to its first \<open>await\<close>, the request to
  the provider, in one piece (\<open>sendMessage_start\<close>); other calls can run before the provider
  has answered; the rest runs when the answer is there (\<open>sendMessage_finish\<close>). The answer is
  the text that the query function returns, or the message of the error it throws.
\<close>

datatype reply = PleaseTypeSomething | StillProcessing | ErrorReply string | Answer string




subsection \<open>The page: both singletons\<close>

text \<open>\<open>window.dictionary\<close> and \<open>window.aiAssistant\<close>, the objects that any code of the page
  can reach.\<close>

record 'r window =
  dictionary :: "'r Dictionary"
  aiAssistant :: AIAssistant

text \<open>
  The request of \<open>queryAI\<close> and what comes back: \<open>fetch\<close> or reading the body rejects with a
  message; the status is not ok (with the message of the error body, or the status text);
  the body has no \<open>choices[0].message\<close>; or it has one, with this content.
\<close>

datatype prompt = Text string | LookupPrompt string string string

record request =
  url :: string
  bearer :: "string option"
  content :: prompt

datatype fetched = Rejected string | NotOk string | InvalidFormat | Content string

type_synonym groq = "request \<Rightarrow> fetched"

definition queryAI_start :: "'r window \<Rightarrow> prompt \<Rightarrow> (string + request) \<times> 'r window" where
  "queryAI_start win prompt =
     (if Dictionary.isProcessing (dictionary win)
      then (Inl ''Dictionary AI is busy. Please wait...'', win)
      else (Inr \<lparr>url = apiEndpoint (dictionary win), bearer = apiKey (dictionary win),
                  content = prompt\<rparr>,
            win\<lparr>dictionary := (dictionary win)\<lparr>Dictionary.isProcessing := True\<rparr>\<rparr>))"

definition queryAI_finish :: "'r window \<Rightarrow> fetched \<Rightarrow> (string + string) \<times> 'r window" where
  "queryAI_finish win answer =
     ((case answer of
         Rejected message \<Rightarrow> Inl message
       | NotOk message \<Rightarrow> Inl (''API error: '' @ message)
       | InvalidFormat \<Rightarrow> Inl ''Invalid response format''
       | Content c \<Rightarrow> Inr (trim c)),
      win\<lparr>dictionary := (dictionary win)\<lparr>Dictionary.isProcessing := False\<rparr>\<rparr>)"

text \<open>A whole call of \<open>queryAI\<close> with nothing running in between: \<open>Inl\<close> is the error thrown.\<close>

definition queryAI :: "groq \<Rightarrow> 'r window \<Rightarrow> prompt \<Rightarrow> (string + string) \<times> 'r window" where
  "queryAI net win prompt =
     (case queryAI_start win prompt of
        (Inl message, win1) \<Rightarrow> (Inl message, win1)
      | (Inr req, win1) \<Rightarrow> queryAI_finish win1 (net req))"

text \<open>\<open>this.supportedLanguages[lang]?.name || lang\<close>.\<close>

definition languageName :: "'r Dictionary \<Rightarrow> string \<Rightarrow> string" where
  "languageName d lang =
     (case supportedLanguages d lang of
        None \<Rightarrow> lang
      | Some n \<Rightarrow> if n = [] then lang else n)"

definition getFromCache :: "'r window \<Rightarrow> string \<Rightarrow> int \<Rightarrow> 'r option \<times> 'r window" where
  "getFromCache win key now =
     (case cache (dictionary win) key of
        None \<Rightarrow> (None, win)
      | Some cached \<Rightarrow>
          if now - cache_entry.timestamp cached > cacheExpiry (dictionary win)
          then (None, win\<lparr>dictionary := (dictionary win)\<lparr>cache := (cache (dictionary win))(key := None)\<rparr>\<rparr>)
          else (Some (data cached), win))"

definition saveToCache :: "'r window \<Rightarrow> string \<Rightarrow> 'r \<Rightarrow> int \<Rightarrow> 'r window" where
  "saveToCache win key result now =
     win\<lparr>dictionary := (dictionary win)\<lparr>cache := (cache (dictionary win))
        (key \<mapsto> \<lparr>data = result, cache_entry.timestamp = now\<rparr>)\<rparr>\<rparr>"

definition performAILookup ::
  "(string \<Rightarrow> string \<Rightarrow> string \<Rightarrow> string \<Rightarrow> 'r) \<Rightarrow> groq \<Rightarrow> 'r window \<Rightarrow> string \<Rightarrow> string \<Rightarrow> string
     \<Rightarrow> (string + 'r) \<times> 'r window" where
  "performAILookup parse net win word source target =
     (let sourceLangName = languageName (dictionary win) source;
          targetLangName = languageName (dictionary win) target
      in case queryAI net win (LookupPrompt word sourceLangName targetLangName) of
           (Inl message, win1) \<Rightarrow> (Inl (''Dictionary AI lookup failed: '' @ message), win1)
         | (Inr aiResponse, win1) \<Rightarrow> (Inr (parse aiResponse word source target), win1))"

text \<open>\<open>lookup(word, sourceLang, targetLang)\<close>, the languages being \<open>source\<close> and \<open>target\<close>; \<open>now\<close> and \<open>later\<close> are the clock when the
  cache is read and when the result is saved.\<close>

definition lookup ::
  "(string \<Rightarrow> string \<Rightarrow> string \<Rightarrow> string \<Rightarrow> 'r) \<Rightarrow> groq \<Rightarrow> int \<Rightarrow> int \<Rightarrow> 'r window
     \<Rightarrow> string \<Rightarrow> string \<Rightarrow> string \<Rightarrow> (string + 'r) \<times> 'r window" where
  "lookup parse net now later win word source target =
     (if blank word then (Inl ''Word cannot be empty'', win)
      else (let word1 = trim word;
                cacheKey = word1 @ ''-'' @ source @ ''-'' @ target
            in case getFromCache win cacheKey now of
                 (Some cached, win1) \<Rightarrow> (Inr cached, win1)
               | (None, win1) \<Rightarrow>
                   (case performAILookup parse net win1 word1 source target of
                      (Inl message, win2) \<Rightarrow> (Inl message, win2)
                    | (Inr result, win2) \<Rightarrow> (Inr result, saveToCache win2 cacheKey result later))))"

record translation =
  text_of :: string
  service :: string
  confidence :: number

text \<open>\<open>translate(text, sourceLang, targetLang)\<close> of the dictionary.\<close>

definition translate ::
  "groq \<Rightarrow> 'r window \<Rightarrow> string \<Rightarrow> string \<Rightarrow> string \<Rightarrow> (string + translation) \<times> 'r window" where
  "translate net win text source target =
     (if blank text then (Inl ''Text cannot be empty'', win)
      else (let sourceLangName = languageName (dictionary win) source;
                targetLangName = languageName (dictionary win) target;
                prompt = Text (''Translate this '' @ sourceLangName @ '' text to '' @ targetLangName @
                   ''. Only provide the translation, nothing else:'' @ [CHR 0x0A, CHR 0x0A, CHR 0x22] @
                   text @ [CHR 0x22])
            in case queryAI net win prompt of
                 (Inl message, win1) \<Rightarrow> (Inl message, win1)
               | (Inr translated, win1) \<Rightarrow>
                   (Inr \<lparr>text_of = trim (filter (\<lambda>c. c \<noteq> CHR 0x22) translated),
                         service = ''Dictionary AI'', confidence = 95 / 100\<rparr>, win1)))"



subsection \<open>getUserJourneyWithCache (learning engine, \<open>part_000\<close>)\<close>

text \<open>
  What the function takes from the browser and from Firestore, with \<open>'j\<close> the type of
  journey data: \<open>JSON.parse\<close> (\<open>Inl\<close> the message of the \<open>SyntaxError\<close>), the number
  \<open>new Date(parsedCache.lastUpdated).getTime()\<close> (\<open>Inl\<close> the message of the \<open>TypeError\<close>
  when the parsed value has no properties, \<open>None\<close> for \<open>NaN\<close>), \<open>JSON.stringify\<close>,
  \<open>Date.now()\<close>, and \<open>getDoc\<close> on \<open>userJourneys/userId\<close> (\<open>Inl\<close> the message when it rejects,
  \<open>None\<close> when the document does not exist). \<open>localStorage\<close> maps keys to strings and is
  taken to accept every write.
\<close>

record 'j browser =
  JSON_parse :: "string \<Rightarrow> string + 'j"
  lastUpdatedTime :: "'j \<Rightarrow> string + int option"
  JSON_stringify :: "'j \<Rightarrow> string"
  Date_now :: int
  getDoc :: "string \<Rightarrow> string + 'j option"

datatype 'j journey_result = Success 'j string | Failure string

text \<open>The part after the cache: \<open>// Fetch from Firebase\<close>.\<close>

definition fetch_from_firebase ::
  "'j browser \<Rightarrow> (string \<rightharpoonup> string) \<Rightarrow> string \<Rightarrow> 'j journey_result \<times> (string \<rightharpoonup> string)" where
  "fetch_from_firebase env localStorage userId =
     (case getDoc env userId of
        Inl message \<Rightarrow> (Failure message, localStorage)
      | Inr None \<Rightarrow> (Failure ''Journey not found'', localStorage)
      | Inr (Some d) \<Rightarrow>
          (Success d ''firebase'', localStorage(''userJourney_'' @ userId \<mapsto> JSON_stringify env d)))"

definition getUserJourneyWithCache ::
  "'j browser \<Rightarrow> (string \<rightharpoonup> string) \<Rightarrow> string \<Rightarrow> 'j journey_result \<times> (string \<rightharpoonup> string)" where
  "getUserJourneyWithCache env localStorage userId =
     (case localStorage (''userJourney_'' @ userId) of
        None \<Rightarrow> fetch_from_firebase env localStorage userId
      | Some cached \<Rightarrow>
          if cached = [] then fetch_from_firebase env localStorage userId
          else (case JSON_parse env cached of
                  Inl message \<Rightarrow> (Failure message, localStorage)
                | Inr parsedCache \<Rightarrow>
                    (case lastUpdatedTime env parsedCache of
                       Inl message \<Rightarrow> (Failure message, localStorage)
                     | Inr None \<Rightarrow> fetch_from_firebase env localStorage userId
                     | Inr (Some t) \<Rightarrow>
                         if Date_now env - t < 5 * 60 * 1000
                         then (Success parsedCache ''cache'', localStorage)
                         else fetch_from_firebase env localStorage userId)))"

text \<open>
  The cached entry that the function answers from: a non-empty string under the key that
  parses, with a time of last update less than five minutes before now.
\<close>

definition fresh_entry :: "'j browser \<Rightarrow> (string \<rightharpoonup> string) \<Rightarrow> string \<Rightarrow> 'j option" where
  "fresh_entry env localStorage userId =
     (case localStorage (''userJourney_'' @ userId) of
        None \<Rightarrow> None
      | Some cached \<Rightarrow>
          (case JSON_parse env cached of
             Inl message \<Rightarrow> None
           | Inr parsedCache \<Rightarrow>
               (case lastUpdatedTime env parsedCache of
                  Inr (Some t) \<Rightarrow>
                    if cached \<noteq> [] \<and> Date_now env - t < 300000 then Some parsedCache else None
                | _ \<Rightarrow> None)))"

text \<open>The cached entry cannot be read: parsing it, or reading its time, throws this message.\<close>

definition unreadable_entry :: "'j browser \<Rightarrow> (string \<rightharpoonup> string) \<Rightarrow> string \<Rightarrow> string option" where
  "unreadable_entry env localStorage userId =
     (case localStorage (''userJourney_'' @ userId) of
        None \<Rightarrow> None
      | Some cached \<Rightarrow>
          if cached = [] then None
          else (case JSON_parse env cached of
                  Inl message \<Rightarrow> Some message
                | Inr parsedCache \<Rightarrow>
                    (case lastUpdatedTime env parsedCache of
                       Inl message \<Rightarrow> Some message
                     | Inr _ \<Rightarrow> None)))"

text \<open>
  A browser for the examples: journey data is the stored text itself, the text
  \<open>updated:1000\<close> carries the time 1000, \<open>{\<close> does not parse, and the user \<open>u1\<close> has the
  document \<open>journey\<close> in Firestore, which cannot be reached for the user \<open>u3\<close>.
\<close>

definition example_browser :: "int \<Rightarrow> string browser" where
  "example_browser now =
     \<lparr>JSON_parse = (\<lambda>s. if s = ''{'' then Inl ''Unexpected end of JSON input'' else Inr s),
      lastUpdatedTime = (\<lambda>j. Inr (if j = ''updated:1000'' then Some 1000 else None)),
      JSON_stringify = (\<lambda>j. j),
      Date_now = now,
      getDoc = (\<lambda>u. if u = ''u1'' then Inr (Some ''journey'')
                     else if u = ''u3'' then Inl ''client is offline'' else Inr None)\<rparr>"

subsection \<open>PageConnectionManager.fetchPageContent (\<open>js/page-connection.js\<close>)\<close>

text \<open>The object literal \<open>pageMap\<close>: its own properties.\<close>

definition pageMap :: "(string \<times> string) list" where
  "pageMap =
     [(''home'', ''../pages/home-ai.html''),
      (''alphabets'', ''../pages/alphabets-ai.html''),
      (''vocabulary'', ''../pages/vocabulary-ai.html''),
      (''grammar'', ''../pages/grammar-ai.html''),
      (''assessment'', ''../pages/final-assessment-ai.html''),
      (''results'', ''../pages/results.html''),
      (''profile'', ''../pages/botinteraction.html'')]"

text \<open>
  An object literal inherits from \<open>Object.prototype\<close>, so \<open>pageMap[page]\<close> finds, besides
  the seven own properties, the properties of the prototype: functions, and the prototype
  itself under \<open>__proto__\<close>, all of them truthy.
\<close>

definition Object_prototype :: "string list" where
  "Object_prototype =
     [''constructor'', ''hasOwnProperty'', ''isPrototypeOf'', ''propertyIsEnumerable'',
      ''toLocaleString'', ''toString'', ''valueOf'', ''__proto__'',
      ''__defineGetter__'', ''__defineSetter__'', ''__lookupGetter__'', ''__lookupSetter__'']"

datatype property = Own string | Inherited string | Undefined

definition get_property :: "(string \<times> string) list \<Rightarrow> string \<Rightarrow> property" where
  "get_property obj key =
     (case map_of obj key of
        Some v \<Rightarrow> Own v
      | None \<Rightarrow> if key \<in> set Object_prototype then Inherited key else Undefined)"

text \<open>\<open>a || b\<close> on such values: an empty string and \<open>undefined\<close> are falsy.\<close>

definition or_property :: "property \<Rightarrow> property \<Rightarrow> property" where
  "or_property a b = (case a of Own v \<Rightarrow> if v = [] then b else a | Inherited k \<Rightarrow> a | Undefined \<Rightarrow> b)"

definition pageUrl :: "string \<Rightarrow> property" where
  "pageUrl page = or_property (get_property pageMap page) (get_property pageMap ''home'')"

text \<open>
  The response of \<open>fetch\<close> to what it is given, and \<open>fetchPageContent\<close>: \<open>Inl\<close> is the error
  that the function throws, with the status in its message. The function is modelled from
  the point where \<open>fetch\<close> has answered; when the request itself fails, \<open>fetch\<close> rejects and
  the function passes that on.
\<close>

record http_response =
  ok :: bool
  status :: nat
  body :: string

datatype page_error = Failed_to_fetch_page nat

definition fetchPageContent :: "(property \<Rightarrow> http_response) \<Rightarrow> string \<Rightarrow> page_error + string" where
  "fetchPageContent fetch page =
     (let response = fetch (pageUrl page)
      in if \<not> ok response then Inl (Failed_to_fetch_page (status response))
         else Inr (body response))"

text \<open>A server for the examples: it has the home page and answers 404 to anything else.\<close>

definition home_only_server :: "property \<Rightarrow> http_response" where
  "home_only_server target =
     (if target = Own ''../pages/home-ai.html''
      then \<lparr>ok = True, status = 200, body = ''<main>home</main>''\<rparr>
      else \<lparr>ok = False, status = 404, body = ''Not Found''\<rparr>)"

subsection \<open>AIPracticeMode.parseAIResponse (practice mode, \<open>part_000\<close>)\<close>

text \<open>
  The regular expressions of the parser are \<open>/^LABEL:/i\<close> and \<open>/^LABEL:\s*/i\<close>. Without the
  \<open>u\<close> flag, ignoring case compares the upper case forms of the characters, and a character
  outside ASCII never takes the form of an ASCII one; the labels are ASCII, so for them it is
  enough to take the letters \<open>a\<close> to \<open>z\<close> to upper case.
\<close>

definition canonical :: "char \<Rightarrow> char" where
  "canonical c =
     (case map_of (zip ''abcdefghijklmnopqrstuvwxyz'' ''ABCDEFGHIJKLMNOPQRSTUVWXYZ'') c of
        None \<Rightarrow> c
      | Some u \<Rightarrow> u)"

text \<open>\<open>/^label/i.test(s)\<close>.\<close>

fun regex_test :: "string \<Rightarrow> string \<Rightarrow> bool" where
  "regex_test [] s = True"
| "regex_test (l # ls) [] = False"
| "regex_test (l # ls) (c # cs) = (canonical l = canonical c \<and> regex_test ls cs)"

text \<open>\<open>s.replace(/^label\s*/i, '')\<close>.\<close>

definition regex_replace :: "string \<Rightarrow> string \<Rightarrow> string" where
  "regex_replace label s =
     (if regex_test label s then dropWhile is_whitespace (drop (length label) s) else s)"

text \<open>\<open>s.split(sep)\<close> for a separator of one character: the empty string gives one empty piece.\<close>

fun split :: "char \<Rightarrow> string \<Rightarrow> string list" where
  "split sep [] = [[]]"
| "split sep (c # cs) =
     (if c = sep then [] # split sep cs
      else (case split sep cs of [] \<Rightarrow> [[c]] | piece # pieces \<Rightarrow> (c # piece) # pieces))"

definition startsWith :: "string \<Rightarrow> string \<Rightarrow> bool" where
  "startsWith s p = (take (length p) s = p)"

text \<open>\<open>!v\<close> for a property that holds a string when it is there.\<close>

definition falsy :: "string option \<Rightarrow> bool" where
  "falsy v = (case v of None \<Rightarrow> True | Some s \<Rightarrow> s = [])"

record exercise =
  type :: string
  raw :: string
  question :: "string option"
  answer :: "string option"
  word :: "string option"
  "definition" :: "string option"
  options :: "string list option"
  words :: "string list option"
  sentence :: "string option"
  correct :: "string option"
  explanation :: "string option"
  translation :: "string option"
  example :: "string option"
  scenario :: "string option"
  prompt :: "string option"
  sampleAnswer :: "string option"
  tip :: "string option"
  audioText :: "string option"
  errorType :: "string option"

text \<open>
  One statement of the \<open>forEach\<close> body:
  \<open>if (/^LABEL:/i.test(trimmedLine)) { exercise.field = trimmedLine.replace(/^LABEL:\s*/i, '').trim() }\<close>,
  with the assignment as a parameter.
\<close>

definition on_label ::
  "string \<Rightarrow> (string \<Rightarrow> exercise \<Rightarrow> exercise) \<Rightarrow> string \<Rightarrow> exercise \<Rightarrow> exercise" where
  "on_label label assign trimmedLine ex =
     (if regex_test label trimmedLine
      then assign (trim (regex_replace label trimmedLine)) ex
      else ex)"

text \<open>\<open>str.split('|').map(o => o.trim()).filter(o => o)\<close>.\<close>

definition split_trimmed :: "string \<Rightarrow> string list" where
  "split_trimmed str = filter (\<lambda>piece. piece \<noteq> []) (map trim (split CHR ''|'' str))"

text \<open>The body of \<open>lines.forEach\<close>: its seventeen statements, in their order.\<close>

definition parse_line :: "exercise \<Rightarrow> string \<Rightarrow> exercise" where
  "parse_line ex line =
     (let trimmedLine = trim line
      in foldl (\<lambda>e statement. statement trimmedLine e) ex
           [on_label ''QUESTION:'' (\<lambda>v e. e\<lparr>question := Some v\<rparr>),
            on_label ''ANSWER:'' (\<lambda>v e. e\<lparr>answer := Some v\<rparr>),
            on_label ''WORD:'' (\<lambda>v e. e\<lparr>word := Some v\<rparr>),
            on_label ''DEFINITION:'' (\<lambda>v e. e\<lparr>definition := Some v\<rparr>),
            on_label ''OPTIONS:'' (\<lambda>optionsStr e. e\<lparr>options := Some (split_trimmed optionsStr)\<rparr>),
            on_label ''WORDS:'' (\<lambda>wordsStr e. e\<lparr>words := Some (split_trimmed wordsStr)\<rparr>),
            on_label ''SENTENCE:'' (\<lambda>v e. e\<lparr>sentence := Some v\<rparr>),
            on_label ''CORRECT:'' (\<lambda>v e. e\<lparr>correct := Some v\<rparr>),
            on_label ''EXPLANATION:'' (\<lambda>v e. e\<lparr>explanation := Some v\<rparr>),
            on_label ''TRANSLATION:'' (\<lambda>v e. e\<lparr>translation := Some v\<rparr>),
            on_label ''EXAMPLE:'' (\<lambda>v e. e\<lparr>example := Some v\<rparr>),
            on_label ''SCENARIO:'' (\<lambda>v e. e\<lparr>scenario := Some v\<rparr>),
            on_label ''PROMPT:'' (\<lambda>v e. e\<lparr>prompt := Some v\<rparr>),
            on_label ''SAMPLE_ANSWER:'' (\<lambda>v e. e\<lparr>sampleAnswer := Some v\<rparr>),
            on_label ''TIP:'' (\<lambda>v e. e\<lparr>tip := Some v\<rparr>),
            on_label ''AUDIO_TEXT:'' (\<lambda>v e. e\<lparr>audioText := Some v\<rparr>),
            on_label ''ERROR_TYPE:'' (\<lambda>v e. e\<lparr>errorType := Some v\<rparr>)])"

text \<open>The object that \<open>parseAIResponse\<close> starts from: only \<open>type\<close> and \<open>raw\<close> are there.\<close>

definition new_exercise :: "string \<Rightarrow> string \<Rightarrow> exercise" where
  "new_exercise response exerciseType =
     \<lparr>type = exerciseType, raw = response, question = None, answer = None, word = None,
      definition = None, options = None, words = None, sentence = None, correct = None,
      explanation = None, translation = None, example = None, scenario = None, prompt = None,
      sampleAnswer = None, tip = None, audioText = None, errorType = None\<rparr>"

definition parseAIResponse :: "string \<Rightarrow> string \<Rightarrow> exercise" where
  "parseAIResponse response exerciseType =
     (let lines = filter (\<lambda>line. trim line \<noteq> []) (split CHR 0x0A response);
          ex = foldl parse_line (new_exercise response exerciseType) lines
      in if falsy (question ex) \<and> falsy (word ex) \<and> falsy (sentence ex) \<and> falsy (prompt ex)
         then (let meaningfulLines = filter (\<lambda>l. length l > 10 \<and> \<not> startsWith l ''//'') lines
               in if length meaningfulLines > 0
                  then (let ex1 = ex\<lparr>question := Some (meaningfulLines ! 0)\<rparr>
                        in if length meaningfulLines > 1
                           then ex1\<lparr>answer := Some (meaningfulLines ! 1)\<rparr>
                           else ex1)
                  else ex)
         else ex)"

subsection \<open>The parser as it is described\<close>

text \<open>
  The description of the parser, to be compared with \<open>parseAIResponse\<close>: the known labels and
  their fields; a line, taken without the white space around it, begins with a label when
  its first characters are those of the label, whatever their case; the remainder is what
  follows the label.
\<close>

datatype field =
  QUESTION | ANSWER | WORD | DEFINITION | OPTIONS | WORDS | SENTENCE | CORRECT | EXPLANATION
  | TRANSLATION | EXAMPLE | SCENARIO | PROMPT | SAMPLE_ANSWER | TIP | AUDIO_TEXT | ERROR_TYPE

fun label_text :: "field \<Rightarrow> string" where
  "label_text QUESTION = ''QUESTION:''"
| "label_text ANSWER = ''ANSWER:''"
| "label_text WORD = ''WORD:''"
| "label_text DEFINITION = ''DEFINITION:''"
| "label_text OPTIONS = ''OPTIONS:''"
| "label_text WORDS = ''WORDS:''"
| "label_text SENTENCE = ''SENTENCE:''"
| "label_text CORRECT = ''CORRECT:''"
| "label_text EXPLANATION = ''EXPLANATION:''"
| "label_text TRANSLATION = ''TRANSLATION:''"
| "label_text EXAMPLE = ''EXAMPLE:''"
| "label_text SCENARIO = ''SCENARIO:''"
| "label_text PROMPT = ''PROMPT:''"
| "label_text SAMPLE_ANSWER = ''SAMPLE_ANSWER:''"
| "label_text TIP = ''TIP:''"
| "label_text AUDIO_TEXT = ''AUDIO_TEXT:''"
| "label_text ERROR_TYPE = ''ERROR_TYPE:''"

definition known_labels :: "field list" where
  "known_labels =
     [QUESTION, ANSWER, WORD, DEFINITION, OPTIONS, WORDS, SENTENCE, CORRECT, EXPLANATION,
      TRANSLATION, EXAMPLE, SCENARIO, PROMPT, SAMPLE_ANSWER, TIP, AUDIO_TEXT, ERROR_TYPE]"

definition upper_case :: "string \<Rightarrow> string" where
  "upper_case s = map canonical s"

definition begins_with :: "string \<Rightarrow> string \<Rightarrow> bool" where
  "begins_with s label = (upper_case (take (length label) s) = upper_case label)"

definition label_of :: "string \<Rightarrow> field option" where
  "label_of s = find (\<lambda>f. begins_with s (label_text f)) known_labels"

text \<open>The lists for OPTIONS and WORDS: the pieces between the bars, trimmed, the empty ones
  left out.\<close>

definition bar_list :: "string \<Rightarrow> string list" where
  "bar_list s = filter (\<lambda>piece. piece \<noteq> []) (map trim (split CHR ''|'' s))"

fun store :: "field \<Rightarrow> string \<Rightarrow> exercise \<Rightarrow> exercise" where
  "store QUESTION v e = e\<lparr>question := Some v\<rparr>"
| "store ANSWER v e = e\<lparr>answer := Some v\<rparr>"
| "store WORD v e = e\<lparr>word := Some v\<rparr>"
| "store DEFINITION v e = e\<lparr>definition := Some v\<rparr>"
| "store OPTIONS v e = e\<lparr>options := Some (bar_list v)\<rparr>"
| "store WORDS v e = e\<lparr>words := Some (bar_list v)\<rparr>"
| "store SENTENCE v e = e\<lparr>sentence := Some v\<rparr>"
| "store CORRECT v e = e\<lparr>correct := Some v\<rparr>"
| "store EXPLANATION v e = e\<lparr>explanation := Some v\<rparr>"
| "store TRANSLATION v e = e\<lparr>translation := Some v\<rparr>"
| "store EXAMPLE v e = e\<lparr>example := Some v\<rparr>"
| "store SCENARIO v e = e\<lparr>scenario := Some v\<rparr>"
| "store PROMPT v e = e\<lparr>prompt := Some v\<rparr>"
| "store SAMPLE_ANSWER v e = e\<lparr>sampleAnswer := Some v\<rparr>"
| "store TIP v e = e\<lparr>tip := Some v\<rparr>"
| "store AUDIO_TEXT v e = e\<lparr>audioText := Some v\<rparr>"
| "store ERROR_TYPE v e = e\<lparr>errorType := Some v\<rparr>"

definition described_line :: "exercise \<Rightarrow> string \<Rightarrow> exercise" where
  "described_line ex line =
     (case label_of (trim line) of
        None \<Rightarrow> ex
      | Some f \<Rightarrow> store f (trim (drop (length (label_text f)) (trim line))) ex)"

definition non_blank_lines :: "string \<Rightarrow> string list" where
  "non_blank_lines response = filter (\<lambda>line. \<not> list_all is_whitespace line) (split CHR 0x0A response)"

text \<open>
  The fallback: the first line longer than 10 characters that does not start with \<open>//\<close> is
  the question, the next such line, when there is one, the answer.
\<close>

definition fall_back :: "string list \<Rightarrow> exercise \<Rightarrow> exercise" where
  "fall_back lines ex =
     (case filter (\<lambda>l. length l > 10 \<and> \<not> prefix ''//'' l) lines of
        [] \<Rightarrow> ex
      | [q] \<Rightarrow> ex\<lparr>question := Some q\<rparr>
      | q # a # more_lines \<Rightarrow> ex\<lparr>question := Some q, answer := Some a\<rparr>)"

text \<open>
  Two readings of a field that the pass over the lines has not given: it was never set, and
  it was never set to anything but the empty string. The described parser, for either.
\<close>

definition never_set :: "string option \<Rightarrow> bool" where
  "never_set v = (v = None)"

definition unset_or_empty :: "string option \<Rightarrow> bool" where
  "unset_or_empty v = (v = None \<or> v = Some [])"

definition described_parse :: "(string option \<Rightarrow> bool) \<Rightarrow> string \<Rightarrow> string \<Rightarrow> exercise" where
  "described_parse missing response exerciseType =
     (let ex = foldl described_line (new_exercise response exerciseType) (non_blank_lines response)
      in if missing (question ex) \<and> missing (word ex) \<and> missing (sentence ex) \<and> missing (prompt ex)
         then fall_back (non_blank_lines response) ex
         else ex)"

text \<open>Two responses for the examples.\<close>

definition empty_question_response :: string where
  "empty_question_response = ''QUESTION:'' @ [CHR 0x0A] @ ''What is the capital of France?''"

definition listening_response :: string where
  "listening_response =
     ''  question: Which city is meant? '' @ [CHR 0x0A] @ [CHR 0x0A] @
     ''OPTIONS: Paris | Rome || Oslo '' @ [CHR 0x0A] @ ''Answer: 1''"

section \<open>Properties\<close>

subsection \<open>The progress aggregate\<close>







subsection \<open>The range of the stored progress\<close>


















subsection \<open>The conversation history\<close>

text \<open>
  C10. After every call of \<open>addToHistory\<close> the history has at most \<open>maxHistoryLength\<close> (10)
  entries; when the pushed history exceeds the bound, what is kept is its last 10 entries, in
  their order, and otherwise all of it.
\<close>

theorem addToHistory_bounded:
  assumes "maxHistoryLength st = 10"
  shows "length (conversationHistory (addToHistory st u a t)) \<le> 10
   \<and> conversationHistory (addToHistory st u a t) =
       (let pushed = conversationHistory st @
                       [\<lparr>user = u, assistant = a, timestamp = t, language = selectedLanguage st\<rparr>]
        in if length pushed > 10 then drop (length pushed - 10) pushed else pushed)
   \<and> suffix (conversationHistory (addToHistory st u a t))
        (conversationHistory st @
           [\<lparr>user = u, assistant = a, timestamp = t, language = selectedLanguage st\<rparr>])
   \<and> maxHistoryLength (addToHistory st u a t) = 10"
  using assms by (auto simp: addToHistory_def Let_def slice_from_end_def suffix_drop)

theorem addToHistory_bounded_witness:
  "maxHistoryLength (initial_assistant\<lparr>conversationHistory :=
        replicate 10 \<lparr>user = ''q'', assistant = ''r'', timestamp = ''t0'', language = ''auto''\<rparr>\<rparr>) = 10
   \<and> length (conversationHistory (addToHistory (initial_assistant\<lparr>conversationHistory :=
        replicate 10 \<lparr>user = ''q'', assistant = ''r'', timestamp = ''t0'', language = ''auto''\<rparr>\<rparr>)
        ''hi'' ''hello'' ''t1'')) \<le> 10
   \<and> last (conversationHistory (addToHistory (initial_assistant\<lparr>conversationHistory :=
        replicate 10 \<lparr>user = ''q'', assistant = ''r'', timestamp = ''t0'', language = ''auto''\<rparr>\<rparr>)
        ''hi'' ''hello'' ''t1'')) =
       \<lparr>user = ''hi'', assistant = ''hello'', timestamp = ''t1'', language = ''auto''\<rparr>"
proof -
  have h: "maxHistoryLength (initial_assistant\<lparr>conversationHistory :=
        replicate 10 \<lparr>user = ''q'', assistant = ''r'', timestamp = ''t0'', language = ''auto''\<rparr>\<rparr>) = 10"
    by (simp add: initial_assistant_def)
  show ?thesis
    using addToHistory_bounded [OF h, of "''hi''" "''hello''" "''t1''"] h
    by (simp add: initial_assistant_def Let_def)
qed

subsection \<open>The translation cache and the fallback\<close>

lemma api_indices: "[0..<length translationAPIs] = [0, 1, 2]"
  by (simp add: translationAPIs_def upt_rec)

lemma api_result_nonempty: "api_result net i = Some s \<Longrightarrow> s \<noteq> []"
  by (auto simp: api_result_def split: if_splits response.splits option.splits)

lemma truthy_api_result: "truthy (api_result net i) = (api_result net i \<noteq> None)"
  by (cases "api_result net i") (auto simp: truthy_def dest: api_result_nonempty)

lemma translateWithAPI_fst: "fst (translateWithAPI net text i w) = api_result net i"
  by (simp add: translateWithAPI_def api_result_def)

lemma translateWithAPI_cache:
  "translationCache (snd (translateWithAPI net text i w)) = translationCache w"
  by (simp add: translateWithAPI_def)

lemma translateWithAPI_index:
  "currentAPIIndex (snd (translateWithAPI net text i w)) = currentAPIIndex w"
  by (simp add: translateWithAPI_def)

lemma cache_hit:
  "translationCache w text = Some c \<Longrightarrow> translateWithFallback net text w = (c, w)"
  by (simp add: translateWithFallback_def)

text \<open>The loop when no remaining API gives a translation: nothing is selected.\<close>

lemma fallback_loop_fails:
  assumes "\<forall>i \<in> set rest. i \<noteq> currentAPIIndex w \<longrightarrow> no_translation text (api_result net i)"
    and "no_translation text t"
  shows "no_translation text (fst (fallback_loop net text rest t w))
       \<and> translationCache (snd (fallback_loop net text rest t w)) = translationCache w
       \<and> currentAPIIndex (snd (fallback_loop net text rest t w)) = currentAPIIndex w"
  using assms
proof (induction rest arbitrary: t w)
  case Nil
  then show ?case by simp
next
  case (Cons i rest)
  show ?case
  proof (cases "i = currentAPIIndex w")
    case True
    then show ?thesis using Cons by simp
  next
    case False
    obtain t' w' where tw: "translateWithAPI net text i w = (t', w')"
      by (cases "translateWithAPI net text i w")
    have t': "t' = api_result net i" using tw translateWithAPI_fst [of net "text" i w] by simp
    have c': "translationCache w' = translationCache w"
      using tw translateWithAPI_cache [of net "text" i w] by simp
    have i': "currentAPIIndex w' = currentAPIIndex w"
      using tw translateWithAPI_index [of net "text" i w] by simp
    have nt: "no_translation text t'" using Cons.prems(1) False t' by simp
    then have stop: "(truthy t' \<and> t' \<noteq> Some text) = False"
      by (auto simp: no_translation_def truthy_def)
    have "\<forall>j \<in> set rest. j \<noteq> currentAPIIndex w' \<longrightarrow> no_translation text (api_result net j)"
      using Cons.prems(1) i' by simp
    from Cons.IH [OF this nt] show ?thesis
      using False tw stop c' i' by simp
  qed
qed

text \<open>The loop when the first remaining API that gives a translation is \<open>i\<close>.\<close>

lemma fallback_loop_selects:
  assumes "\<forall>j \<in> set pre. j \<noteq> currentAPIIndex w \<longrightarrow> no_translation text (api_result net j)"
    and "i \<noteq> currentAPIIndex w" and "api_result net i = Some r" and "r \<noteq> text"
  shows "fst (fallback_loop net text (pre @ i # post) t w) = Some r
       \<and> translationCache (snd (fallback_loop net text (pre @ i # post) t w)) = translationCache w
       \<and> currentAPIIndex (snd (fallback_loop net text (pre @ i # post) t w)) = i"
  using assms
proof (induction pre arbitrary: t w)
  case Nil
  obtain t' w' where tw: "translateWithAPI net text i w = (t', w')"
    by (cases "translateWithAPI net text i w")
  have t': "t' = Some r" using tw translateWithAPI_fst [of net "text" i w] Nil.prems by simp
  have c': "translationCache w' = translationCache w"
    using tw translateWithAPI_cache [of net "text" i w] by simp
  have "r \<noteq> []" using Nil.prems(3) by (rule api_result_nonempty)
  then show ?case using Nil.prems tw t' c' by (simp add: truthy_def)
next
  case (Cons j pre)
  show ?case
  proof (cases "j = currentAPIIndex w")
    case True
    have "\<forall>k \<in> set pre. k \<noteq> currentAPIIndex w \<longrightarrow> no_translation text (api_result net k)"
      using Cons.prems(1) by simp
    from Cons.IH [OF this Cons.prems(2) Cons.prems(3) Cons.prems(4)] show ?thesis
      using True by simp
  next
    case False
    obtain t' w' where tw: "translateWithAPI net text j w = (t', w')"
      by (cases "translateWithAPI net text j w")
    have t': "t' = api_result net j" using tw translateWithAPI_fst [of net "text" j w] by simp
    have c': "translationCache w' = translationCache w"
      using tw translateWithAPI_cache [of net "text" j w] by simp
    have i': "currentAPIIndex w' = currentAPIIndex w"
      using tw translateWithAPI_index [of net "text" j w] by simp
    have "no_translation text t'" using Cons.prems(1) False t' by simp
    then have stop: "(truthy t' \<and> t' \<noteq> Some text) = False"
      by (auto simp: no_translation_def truthy_def)
    have p1: "\<forall>k \<in> set pre. k \<noteq> currentAPIIndex w' \<longrightarrow> no_translation text (api_result net k)"
      using Cons.prems(1) i' by simp
    have p2: "i \<noteq> currentAPIIndex w'" using Cons.prems(2) i' by simp
    from Cons.IH [OF p1 p2 Cons.prems(3) Cons.prems(4)] show ?thesis
      using False tw stop c' by auto
  qed
qed

lemma fallback_loop_cache:
  "translationCache (snd (fallback_loop net text rest t w)) = translationCache w"
proof (induction rest arbitrary: t w)
  case Nil
  then show ?case by simp
next
  case (Cons i rest)
  obtain t' w' where tw: "translateWithAPI net text i w = (t', w')"
    by (cases "translateWithAPI net text i w")
  have c': "translationCache w' = translationCache w"
    using tw translateWithAPI_cache [of net "text" i w] by simp
  show ?case using Cons.IH [of t w] Cons.IH [of t' w'] tw c' by simp
qed

lemma fallback_loop_none:
  assumes "\<forall>i. api_result net i = None"
  shows "fst (fallback_loop net text rest None w) = None"
proof (induction rest arbitrary: w)
  case Nil
  then show ?case by simp
next
  case (Cons i rest)
  obtain t' w' where tw: "translateWithAPI net text i w = (t', w')"
    by (cases "translateWithAPI net text i w")
  have "t' = None" using tw translateWithAPI_fst [of net "text" i w] assms by simp
  then show ?case using Cons.IH [of w] Cons.IH [of w'] tw by (simp add: truthy_def)
qed

lemma upt_split: "i < n \<Longrightarrow> [0..<n] = [0..<i] @ i # [Suc i..<n]"
proof -
  assume "i < n"
  then have "[0..<n] = [0..<i] @ [i..<n]"
    using upt_add_eq_append [of 0 i "n - i"] by simp
  then show ?thesis using \<open>i < n\<close> by (simp add: upt_conv_Cons)
qed

text \<open>After a call, whatever the cache holds for the text is what the call returned.\<close>

lemma cached_is_returned:
  assumes "translationCache (snd (translateWithFallback net text w)) text = Some c"
  shows "fst (translateWithFallback net text w) = c"
proof (cases "translationCache w text")
  case (Some c0)
  then show ?thesis using assms by (simp add: translateWithFallback_def)
next
  case None
  obtain t0 w0 where a: "translateWithAPI net text (currentAPIIndex w) w = (t0, w0)"
    by (cases "translateWithAPI net text (currentAPIIndex w) w")
  have c0: "translationCache w0 = translationCache w"
    using a translateWithAPI_cache [of net "text" "currentAPIIndex w" w] by simp
  obtain t1 w1 where b:
    "(if \<not> truthy t0 \<or> t0 = Some text
      then fallback_loop net text [0..<length translationAPIs] t0 w0 else (t0, w0)) = (t1, w1)"
    by (cases "if \<not> truthy t0 \<or> t0 = Some text
      then fallback_loop net text [0..<length translationAPIs] t0 w0 else (t0, w0)")
  have c1: "translationCache w1 = translationCache w"
  proof (cases "\<not> truthy t0 \<or> t0 = Some text")
    case True
    then have "fallback_loop net text [0..<length translationAPIs] t0 w0 = (t1, w1)"
      using b by simp
    then show ?thesis
      using fallback_loop_cache [of net "text" "[0..<length translationAPIs]" t0 w0] c0 by simp
  next
    case False
    then show ?thesis using b c0 by simp
  qed
  show ?thesis
    using assms None a b c1 by (simp add: translateWithFallback_def split: option.splits if_splits)
qed

text \<open>
  C3, as the code has it. A text that is a key of the cache is answered from the cache: the
  widget is returned as it was, so no API is invoked. A second call in succession returns
  what the first returned and leaves the widget as the first left it (no request), provided
  the first call left the text in the cache. It does so when the selected API gives a
  translation different from the text; it does not when every API fails, since only a
  truthy result is stored.
\<close>

theorem translateWithFallback_cache_hit:
  "(translationCache w text = Some c \<longrightarrow> translateWithFallback net text w = (c, w))
   \<and> (translationCache (snd (translateWithFallback net text w)) text \<noteq> None \<longrightarrow>
        translateWithFallback net' text (snd (translateWithFallback net text w)) =
          translateWithFallback net text w)
   \<and> (translationCache w text = None \<and> api_result net (currentAPIIndex w) = Some r \<and> r \<noteq> text \<longrightarrow>
        translationCache (snd (translateWithFallback net text w)) text = Some r)
   \<and> (translationCache w text = None \<and> (\<forall>i. api_result net i = None) \<longrightarrow>
        translationCache (snd (translateWithFallback net text w)) text = None)"
proof (intro conjI impI)
  assume "translationCache w text = Some c"
  then show "translateWithFallback net text w = (c, w)" by (rule cache_hit)
next
  assume "translationCache (snd (translateWithFallback net text w)) text \<noteq> None"
  then obtain c where c: "translationCache (snd (translateWithFallback net text w)) text = Some c"
    by blast
  then have "fst (translateWithFallback net text w) = c" by (rule cached_is_returned)
  then show "translateWithFallback net' text (snd (translateWithFallback net text w)) =
          translateWithFallback net text w"
    using cache_hit [OF c, of net'] by (simp add: prod_eq_iff)
next
  assume h: "translationCache w text = None \<and> api_result net (currentAPIIndex w) = Some r \<and> r \<noteq> text"
  then have "r \<noteq> []" using api_result_nonempty by blast
  then show "translationCache (snd (translateWithFallback net text w)) text = Some r"
    using h by (auto simp: translateWithFallback_def translateWithAPI_def api_result_def truthy_def
        split: if_splits)
next
  assume h: "translationCache w text = None \<and> (\<forall>i. api_result net i = None)"
  obtain t0 w0 where a: "translateWithAPI net text (currentAPIIndex w) w = (t0, w0)"
    by (cases "translateWithAPI net text (currentAPIIndex w) w")
  have t0: "t0 = None"
    using a translateWithAPI_fst [of net "text" "currentAPIIndex w" w] h by simp
  have c0: "translationCache w0 = translationCache w"
    using a translateWithAPI_cache [of net "text" "currentAPIIndex w" w] by simp
  obtain t1 w1 where b: "fallback_loop net text [0..<length translationAPIs] None w0 = (t1, w1)"
    by (cases "fallback_loop net text [0..<length translationAPIs] None w0")
  have t1: "t1 = None"
    using b fallback_loop_none [of net "text" "[0..<length translationAPIs]" w0] h by simp
  have c1: "translationCache w1 = translationCache w"
    using b fallback_loop_cache [of net "text" "[0..<length translationAPIs]" None w0] c0 by simp
  show "translationCache (snd (translateWithFallback net text w)) text = None"
    using h a t0 b t1 c1 by (simp add: translateWithFallback_def truthy_def)
qed

theorem translateWithFallback_cache_hit_witness:
  "translateWithFallback network_down ''hello''
      (initial_widget\<lparr>translationCache := [''hello'' \<mapsto> ''hola'']\<rparr>) =
     (''hola'', initial_widget\<lparr>translationCache := [''hello'' \<mapsto> ''hola'']\<rparr>)
   \<and> translateWithFallback network_down ''hello''
        (snd (translateWithFallback network_hola ''hello'' initial_widget)) =
       translateWithFallback network_hola ''hello'' initial_widget
   \<and> fst (translateWithFallback network_hola ''hello'' initial_widget) = ''hola''
   \<and> translationCache (snd (translateWithFallback network_hola ''hello'' initial_widget)) ''hello'' =
       Some ''hola''
   \<and> translationCache (snd (translateWithFallback network_down ''hello'' initial_widget)) ''hello'' =
       None"
proof -
  have h1: "translationCache (initial_widget\<lparr>translationCache := [''hello'' \<mapsto> ''hola'']\<rparr>) ''hello'' =
      Some ''hola''"
    by simp
  have h3: "translationCache initial_widget ''hello'' = None \<and>
      api_result network_hola (currentAPIIndex initial_widget) = Some ''hola'' \<and> ''hola'' \<noteq> ''hello''"
    by (simp add: initial_widget_def api_result_def network_hola_def translationAPIs_def)
  have h4: "translationCache initial_widget ''hello'' = None \<and> (\<forall>i. api_result network_down i = None)"
    by (simp add: initial_widget_def api_result_def network_down_def)
  have c3: "translationCache (snd (translateWithFallback network_hola ''hello'' initial_widget)) ''hello'' =
      Some ''hola''"
    using translateWithFallback_cache_hit
      [of initial_widget "''hello''" "''hola''" network_hola network_down "''hola''"] h3
    by blast
  then have h2: "translationCache (snd (translateWithFallback network_hola ''hello'' initial_widget)) ''hello''
      \<noteq> None"
    by simp
  have c1: "translateWithFallback network_down ''hello''
      (initial_widget\<lparr>translationCache := [''hello'' \<mapsto> ''hola'']\<rparr>) =
     (''hola'', initial_widget\<lparr>translationCache := [''hello'' \<mapsto> ''hola'']\<rparr>)"
    using translateWithFallback_cache_hit
      [of "initial_widget\<lparr>translationCache := [''hello'' \<mapsto> ''hola'']\<rparr>" "''hello''" "''hola''"
        network_down network_down "''hola''"] h1
    by blast
  have c2: "translateWithFallback network_down ''hello''
        (snd (translateWithFallback network_hola ''hello'' initial_widget)) =
       translateWithFallback network_hola ''hello'' initial_widget"
    using translateWithFallback_cache_hit
      [of initial_widget "''hello''" "''hola''" network_hola network_down "''hola''"] h2
    by blast
  have c4: "translationCache (snd (translateWithFallback network_down ''hello'' initial_widget)) ''hello'' =
      None"
    using translateWithFallback_cache_hit
      [of initial_widget "''hello''" "''hola''" network_down network_down "''hola''"] h4
    by blast
  have c5: "fst (translateWithFallback network_hola ''hello'' initial_widget) = ''hola''"
    using c3 by (rule cached_is_returned)
  show ?thesis using c1 c2 c3 c4 c5 by blast
qed

text \<open>
  C3 as stated fails: when every API fails in the first call nothing is cached, and a second
  call with the same text asks the APIs again (here three more requests with the network
  still down, one more and another result once the network answers).
\<close>

theorem second_call_asks_again:
  "fst (translateWithFallback network_down ''hello'' initial_widget) = ''hello''
   \<and> invocations (snd (translateWithFallback network_down ''hello'' initial_widget)) =
       [(0, ''hello''), (1, ''hello''), (2, ''hello'')]
   \<and> invocations (snd (translateWithFallback network_down ''hello''
         (snd (translateWithFallback network_down ''hello'' initial_widget)))) =
       [(0, ''hello''), (1, ''hello''), (2, ''hello''), (0, ''hello''), (1, ''hello''), (2, ''hello'')]
   \<and> fst (translateWithFallback network_hola ''hello''
         (snd (translateWithFallback network_down ''hello'' initial_widget))) = ''hola''
   \<and> invocations (snd (translateWithFallback network_hola ''hello''
         (snd (translateWithFallback network_down ''hello'' initial_widget)))) =
       [(0, ''hello''), (1, ''hello''), (2, ''hello''), (0, ''hello'')]"
  by (simp add: translateWithFallback_def translateWithAPI_def api_result_def api_indices
      network_down_def network_hola_def initial_widget_def truthy_def translationAPIs_def)

text \<open>
  C4. For a text that is not cached: when the selected API and every other API fail or
  return the text itself, \<open>translateWithFallback\<close> returns the text unchanged. When the
  selected API has failed or returned the text and, in the loop, the API at index \<open>i\<close> is the
  first of the others to return a translation different from the text, \<open>i\<close> becomes
  \<open>currentAPIIndex\<close> and that translation is cached for the text and returned.
\<close>

theorem translateWithFallback_falls_back:
  "(translationCache w text = None \<and> (\<forall>i. no_translation text (api_result net i)) \<longrightarrow>
      fst (translateWithFallback net text w) = text)
   \<and> (translationCache w text = None \<and> no_translation text (api_result net (currentAPIIndex w)) \<and>
      i < length translationAPIs \<and> i \<noteq> currentAPIIndex w \<and>
      api_result net i = Some r \<and> r \<noteq> text \<and>
      (\<forall>j < i. j \<noteq> currentAPIIndex w \<longrightarrow> no_translation text (api_result net j)) \<longrightarrow>
        fst (translateWithFallback net text w) = r \<and>
        currentAPIIndex (snd (translateWithFallback net text w)) = i \<and>
        translationCache (snd (translateWithFallback net text w)) = (translationCache w)(text \<mapsto> r))"
proof (rule conjI; rule impI)
  assume h: "translationCache w text = None \<and> (\<forall>i. no_translation text (api_result net i))"
  obtain t0 w0 where a: "translateWithAPI net text (currentAPIIndex w) w = (t0, w0)"
    by (cases "translateWithAPI net text (currentAPIIndex w) w")
  have t0: "no_translation text t0"
    using a translateWithAPI_fst [of net "text" "currentAPIIndex w" w] h by simp
  then have enter: "(\<not> truthy t0 \<or> t0 = Some text) = True"
    by (auto simp: no_translation_def truthy_def)
  obtain t1 w1 where b: "fallback_loop net text [0..<length translationAPIs] t0 w0 = (t1, w1)"
    by (cases "fallback_loop net text [0..<length translationAPIs] t0 w0")
  have "\<forall>i \<in> set [0..<length translationAPIs].
          i \<noteq> currentAPIIndex w0 \<longrightarrow> no_translation text (api_result net i)"
    using h by simp
  from fallback_loop_fails [OF this t0] have "no_translation text t1" using b by simp
  then have "t1 = None \<or> t1 = Some text" by (simp add: no_translation_def)
  then show "fst (translateWithFallback net text w) = text"
    using h a enter b by (auto simp: translateWithFallback_def)
next
  assume h: "translationCache w text = None \<and> no_translation text (api_result net (currentAPIIndex w)) \<and>
      i < length translationAPIs \<and> i \<noteq> currentAPIIndex w \<and>
      api_result net i = Some r \<and> r \<noteq> text \<and>
      (\<forall>j < i. j \<noteq> currentAPIIndex w \<longrightarrow> no_translation text (api_result net j))"
  obtain t0 w0 where a: "translateWithAPI net text (currentAPIIndex w) w = (t0, w0)"
    by (cases "translateWithAPI net text (currentAPIIndex w) w")
  have t0: "no_translation text t0"
    using a translateWithAPI_fst [of net "text" "currentAPIIndex w" w] h by simp
  then have enter: "(\<not> truthy t0 \<or> t0 = Some text) = True"
    by (auto simp: no_translation_def truthy_def)
  have c0: "translationCache w0 = translationCache w"
    using a translateWithAPI_cache [of net "text" "currentAPIIndex w" w] by simp
  have i0: "currentAPIIndex w0 = currentAPIIndex w"
    using a translateWithAPI_index [of net "text" "currentAPIIndex w" w] by simp
  have split: "[0..<length translationAPIs] = [0..<i] @ i # [Suc i..<length translationAPIs]"
    using h by (simp add: upt_split)
  obtain t1 w1 where b: "fallback_loop net text [0..<length translationAPIs] t0 w0 = (t1, w1)"
    by (cases "fallback_loop net text [0..<length translationAPIs] t0 w0")
  have p1: "\<forall>j \<in> set [0..<i]. j \<noteq> currentAPIIndex w0 \<longrightarrow> no_translation text (api_result net j)"
    using h i0 by simp
  have p2: "i \<noteq> currentAPIIndex w0" using h i0 by simp
  have p3: "api_result net i = Some r" using h by simp
  have p4: "r \<noteq> text" using h by simp
  have sel: "t1 = Some r \<and> translationCache w1 = translationCache w \<and> currentAPIIndex w1 = i"
    using fallback_loop_selects [OF p1 p2 p3 p4, of "[Suc i..<length translationAPIs]" t0] b c0
    by (simp add: split [symmetric])
  have ne: "r \<noteq> []" using p3 by (rule api_result_nonempty)
  show "fst (translateWithFallback net text w) = r \<and>
        currentAPIIndex (snd (translateWithFallback net text w)) = i \<and>
        translationCache (snd (translateWithFallback net text w)) = (translationCache w)(text \<mapsto> r)"
    using h a enter b sel ne by (simp add: translateWithFallback_def)
qed

theorem translateWithFallback_falls_back_witness:
  "fst (translateWithFallback network_down ''hello'' initial_widget) = ''hello''
   \<and> fst (translateWithFallback network_second_only ''hello'' initial_widget) = ''hola''
   \<and> currentAPIIndex (snd (translateWithFallback network_second_only ''hello'' initial_widget)) = 1
   \<and> translationCache (snd (translateWithFallback network_second_only ''hello'' initial_widget)) =
       [''hello'' \<mapsto> ''hola'']"
proof -
  have h1: "translationCache initial_widget ''hello'' = None \<and>
      (\<forall>i. no_translation ''hello'' (api_result network_down i))"
    by (simp add: initial_widget_def api_result_def network_down_def no_translation_def)
  have h2: "translationCache initial_widget ''hello'' = None \<and>
      no_translation ''hello'' (api_result network_second_only (currentAPIIndex initial_widget)) \<and>
      1 < length translationAPIs \<and> 1 \<noteq> currentAPIIndex initial_widget \<and>
      api_result network_second_only 1 = Some ''hola'' \<and> ''hola'' \<noteq> ''hello'' \<and>
      (\<forall>j < 1. j \<noteq> currentAPIIndex initial_widget \<longrightarrow>
         no_translation ''hello'' (api_result network_second_only j))"
    by (simp add: initial_widget_def api_result_def network_second_only_def no_translation_def
        translationAPIs_def)
  have c1: "fst (translateWithFallback network_down ''hello'' initial_widget) = ''hello''"
    using translateWithFallback_falls_back
      [of initial_widget "''hello''" network_down 1 "''hola''"] h1 by blast
  have c2: "fst (translateWithFallback network_second_only ''hello'' initial_widget) = ''hola'' \<and>
      currentAPIIndex (snd (translateWithFallback network_second_only ''hello'' initial_widget)) = 1 \<and>
      translationCache (snd (translateWithFallback network_second_only ''hello'' initial_widget)) =
        (translationCache initial_widget)(''hello'' \<mapsto> ''hola'')"
    using translateWithFallback_falls_back
      [of initial_widget "''hello''" network_second_only 1 "''hola''"] h2 by blast
  show ?thesis using c1 c2 by (simp add: initial_widget_def)
qed

subsection \<open>The busy flags\<close>












subsection \<open>The dictionary and the assistant\<close>

lemma queryAI_start_frame:
  "queryAI_start (win\<lparr>aiAssistant := a\<rparr>) p =
     (fst (queryAI_start win p), (snd (queryAI_start win p))\<lparr>aiAssistant := a\<rparr>)"
  by (simp add: queryAI_start_def)

lemma queryAI_finish_frame:
  "queryAI_finish (win\<lparr>aiAssistant := a\<rparr>) outcome =
     (fst (queryAI_finish win outcome), (snd (queryAI_finish win outcome))\<lparr>aiAssistant := a\<rparr>)"
  by (simp add: queryAI_finish_def)

lemma queryAI_frame:
  "queryAI net (win\<lparr>aiAssistant := a\<rparr>) p =
     (fst (queryAI net win p), (snd (queryAI net win p))\<lparr>aiAssistant := a\<rparr>)"
  by (simp add: queryAI_def queryAI_start_def queryAI_finish_def)

lemma getFromCache_frame:
  "getFromCache (win\<lparr>aiAssistant := a\<rparr>) key now =
     (fst (getFromCache win key now), (snd (getFromCache win key now))\<lparr>aiAssistant := a\<rparr>)"
  by (simp add: getFromCache_def split: option.splits)

lemma saveToCache_frame:
  "saveToCache (win\<lparr>aiAssistant := a\<rparr>) key r now = (saveToCache win key r now)\<lparr>aiAssistant := a\<rparr>"
  by (simp add: saveToCache_def)

lemma performAILookup_frame:
  "performAILookup parse net (win\<lparr>aiAssistant := a\<rparr>) entry source target =
     (fst (performAILookup parse net win entry source target),
      (snd (performAILookup parse net win entry source target))\<lparr>aiAssistant := a\<rparr>)"
proof -
  obtain r w1 where q: "queryAI net win
      (LookupPrompt entry (languageName (dictionary win) source) (languageName (dictionary win) target)) =
      (r, w1)"
    by (cases "queryAI net win
      (LookupPrompt entry (languageName (dictionary win) source) (languageName (dictionary win) target))")
  show ?thesis
    by (cases r) (simp_all add: performAILookup_def Let_def queryAI_frame q)
qed

lemma lookup_frame:
  "lookup parse net now later (win\<lparr>aiAssistant := a\<rparr>) entry source target =
     (fst (lookup parse net now later win entry source target),
      (snd (lookup parse net now later win entry source target))\<lparr>aiAssistant := a\<rparr>)"
proof (cases "blank entry")
  case True
  then show ?thesis by (simp add: lookup_def)
next
  case False
  obtain c w1 where g: "getFromCache win (trim entry @ ''-'' @ source @ ''-'' @ target) now = (c, w1)"
    by (cases "getFromCache win (trim entry @ ''-'' @ source @ ''-'' @ target) now")
  show ?thesis
  proof (cases c)
    case (Some r)
    then show ?thesis using False g by (simp add: lookup_def Let_def getFromCache_frame)
  next
    case None
    obtain e w2 where l: "performAILookup parse net w1 (trim entry) source target = (e, w2)"
      by (cases "performAILookup parse net w1 (trim entry) source target")
    show ?thesis using False g None l
      by (cases e)
        (simp_all add: lookup_def Let_def getFromCache_frame performAILookup_frame saveToCache_frame)
  qed
qed

lemma translate_frame:
  "translate net (win\<lparr>aiAssistant := a\<rparr>) text source target =
     (fst (translate net win text source target),
      (snd (translate net win text source target))\<lparr>aiAssistant := a\<rparr>)"
proof (cases "blank text")
  case True
  then show ?thesis by (simp add: translate_def)
next
  case False
  obtain r w1 where q: "queryAI net win (Text (''Translate this '' @ languageName (dictionary win) source @
      '' text to '' @ languageName (dictionary win) target @
      ''. Only provide the translation, nothing else:'' @ [CHR 0x0A, CHR 0x0A, CHR 0x22] @
      text @ [CHR 0x22])) = (r, w1)"
    by (cases "queryAI net win (Text (''Translate this '' @ languageName (dictionary win) source @
      '' text to '' @ languageName (dictionary win) target @
      ''. Only provide the translation, nothing else:'' @ [CHR 0x0A, CHR 0x0A, CHR 0x22] @
      text @ [CHR 0x22]))")
  show ?thesis using False q
    by (cases r) (simp_all add: translate_def Let_def queryAI_frame)
qed

lemma settings_trans:
  fixes d d' d'' :: "'r Dictionary"
  assumes "d'\<lparr>cache := cache d, Dictionary.isProcessing := Dictionary.isProcessing d\<rparr> = d"
    and "d''\<lparr>cache := cache d', Dictionary.isProcessing := Dictionary.isProcessing d'\<rparr> = d'"
  shows "d''\<lparr>cache := cache d, Dictionary.isProcessing := Dictionary.isProcessing d\<rparr> = d"
  using assms by (cases d, cases d', cases d'') simp

lemma queryAI_writes:
  "(dictionary (snd (queryAI net win p)))
      \<lparr>Dictionary.isProcessing := Dictionary.isProcessing (dictionary win)\<rparr> = dictionary win"
  by (simp add: queryAI_def queryAI_start_def queryAI_finish_def)

lemma queryAI_cache: "cache (dictionary (snd (queryAI net win p))) = cache (dictionary win)"
  by (simp add: queryAI_def queryAI_start_def queryAI_finish_def)

lemma queryAI_settings:
  "(dictionary (snd (queryAI net win p)))
      \<lparr>cache := cache (dictionary win),
       Dictionary.isProcessing := Dictionary.isProcessing (dictionary win)\<rparr> = dictionary win"
  by (simp add: queryAI_def queryAI_start_def queryAI_finish_def)

lemma translate_writes:
  "(dictionary (snd (translate net win text source target)))
      \<lparr>Dictionary.isProcessing := Dictionary.isProcessing (dictionary win)\<rparr> = dictionary win"
proof (cases "blank text")
  case True
  then show ?thesis by (simp add: translate_def)
next
  case False
  obtain r w1 where q: "queryAI net win (Text (''Translate this '' @ languageName (dictionary win) source @
      '' text to '' @ languageName (dictionary win) target @
      ''. Only provide the translation, nothing else:'' @ [CHR 0x0A, CHR 0x0A, CHR 0x22] @
      text @ [CHR 0x22])) = (r, w1)"
    by (cases "queryAI net win (Text (''Translate this '' @ languageName (dictionary win) source @
      '' text to '' @ languageName (dictionary win) target @
      ''. Only provide the translation, nothing else:'' @ [CHR 0x0A, CHR 0x0A, CHR 0x22] @
      text @ [CHR 0x22]))")
  have "(dictionary w1)\<lparr>Dictionary.isProcessing := Dictionary.isProcessing (dictionary win)\<rparr> =
      dictionary win"
    using queryAI_writes [where net = net and win = win] q by (metis snd_conv)
  then show ?thesis using False q by (cases r) (simp_all add: translate_def Let_def)
qed

lemma getFromCache_settings:
  "(dictionary (snd (getFromCache win key now)))
      \<lparr>cache := cache (dictionary win),
       Dictionary.isProcessing := Dictionary.isProcessing (dictionary win)\<rparr> = dictionary win"
  by (simp add: getFromCache_def split: option.splits)

lemma performAILookup_settings:
  "(dictionary (snd (performAILookup parse net win entry source target)))
      \<lparr>cache := cache (dictionary win),
       Dictionary.isProcessing := Dictionary.isProcessing (dictionary win)\<rparr> = dictionary win"
proof -
  obtain r w1 where q: "queryAI net win
      (LookupPrompt entry (languageName (dictionary win) source) (languageName (dictionary win) target)) =
      (r, w1)"
    by (cases "queryAI net win
      (LookupPrompt entry (languageName (dictionary win) source) (languageName (dictionary win) target))")
  have "(dictionary w1)\<lparr>cache := cache (dictionary win),
       Dictionary.isProcessing := Dictionary.isProcessing (dictionary win)\<rparr> = dictionary win"
    using queryAI_settings [where net = net and win = win] q by (metis snd_conv)
  then show ?thesis using q by (cases r) (simp_all add: performAILookup_def Let_def)
qed

lemma saveToCache_settings:
  "(dictionary (saveToCache win key r now))
      \<lparr>cache := cache (dictionary win),
       Dictionary.isProcessing := Dictionary.isProcessing (dictionary win)\<rparr> = dictionary win"
  by (simp add: saveToCache_def)

lemma lookup_writes:
  "(dictionary (snd (lookup parse net now later win entry source target)))
      \<lparr>cache := cache (dictionary win),
       Dictionary.isProcessing := Dictionary.isProcessing (dictionary win)\<rparr> = dictionary win"
proof (cases "blank entry")
  case True
  then show ?thesis by (simp add: lookup_def)
next
  case False
  obtain c w1 where g: "getFromCache win (trim entry @ ''-'' @ source @ ''-'' @ target) now = (c, w1)"
    by (cases "getFromCache win (trim entry @ ''-'' @ source @ ''-'' @ target) now")
  have s1: "(dictionary w1)\<lparr>cache := cache (dictionary win),
       Dictionary.isProcessing := Dictionary.isProcessing (dictionary win)\<rparr> = dictionary win"
    using getFromCache_settings [where win = win and now = now
          and key = "trim entry @ ''-'' @ source @ ''-'' @ target"] g by simp
  show ?thesis
  proof (cases c)
    case (Some r)
    then show ?thesis using False g s1 by (simp add: lookup_def Let_def)
  next
    case None
    obtain e w2 where l: "performAILookup parse net w1 (trim entry) source target = (e, w2)"
      by (cases "performAILookup parse net w1 (trim entry) source target")
    have s2: "(dictionary w2)\<lparr>cache := cache (dictionary w1),
       Dictionary.isProcessing := Dictionary.isProcessing (dictionary w1)\<rparr> = dictionary w1"
      using performAILookup_settings [where parse = parse and net = net and win = w1
          and entry = "trim entry" and source = source and target = target] l by simp
    have s12: "(dictionary w2)\<lparr>cache := cache (dictionary win),
       Dictionary.isProcessing := Dictionary.isProcessing (dictionary win)\<rparr> = dictionary win"
      using s1 s2 by (rule settings_trans)
    show ?thesis
    proof (cases e)
      case (Inl m)
      then show ?thesis using False g None l s12 by (simp add: lookup_def Let_def)
    next
      case (Inr r)
      have s3: "(dictionary (saveToCache w2 (trim entry @ ''-'' @ source @ ''-'' @ target) r later))
          \<lparr>cache := cache (dictionary w2),
           Dictionary.isProcessing := Dictionary.isProcessing (dictionary w2)\<rparr> = dictionary w2"
        by (rule saveToCache_settings)
      have "(dictionary (saveToCache w2 (trim entry @ ''-'' @ source @ ''-'' @ target) r later))
          \<lparr>cache := cache (dictionary win),
           Dictionary.isProcessing := Dictionary.isProcessing (dictionary win)\<rparr> = dictionary win"
        using s12 s3 by (rule settings_trans)
      then show ?thesis using False g None l Inr by (simp add: lookup_def Let_def)
    qed
  qed
qed

lemma frame_unchanged:
  assumes "\<And>a. f (win\<lparr>aiAssistant := a\<rparr>) = (fst (f win), (snd (f win))\<lparr>aiAssistant := a\<rparr>)"
  shows "aiAssistant (snd (f win)) = aiAssistant win"
proof -
  have "f (win\<lparr>aiAssistant := aiAssistant win\<rparr>) =
      (fst (f win), (snd (f win))\<lparr>aiAssistant := aiAssistant win\<rparr>)"
    by (rule assms)
  then have "snd (f win) = snd (fst (f win), (snd (f win))\<lparr>aiAssistant := aiAssistant win\<rparr>)"
    by simp
  then have "snd (f win) = (snd (f win))\<lparr>aiAssistant := aiAssistant win\<rparr>"
    by (simp only: snd_conv)
  then have "aiAssistant (snd (f win)) = aiAssistant ((snd (f win))\<lparr>aiAssistant := aiAssistant win\<rparr>)"
    by simp
  then show ?thesis by simp
qed

text \<open>
  C8. The operations of the dictionary and the assistant's state: \<open>queryAI\<close> (also each of
  its two halves, so whatever runs in between), \<open>lookup\<close> and \<open>translate\<close> leave
  \<open>window.aiAssistant\<close>, with its \<open>conversationHistory\<close>, \<open>apiProvider\<close> and \<open>isProcessing\<close>,
  as it was, and what they return and do to the dictionary is the same whatever the
  assistant's state is: they read none of it. Of the dictionary they change the
  \<open>isProcessing\<close> flag and, in \<open>lookup\<close>, the cache, and nothing else.
\<close>

theorem dictionary_leaves_assistant:
  "aiAssistant (snd (queryAI_start win p)) = aiAssistant win
   \<and> aiAssistant (snd (queryAI_finish win outcome)) = aiAssistant win
   \<and> aiAssistant (snd (queryAI net win p)) = aiAssistant win
   \<and> aiAssistant (snd (lookup parse net now later win entry source target)) = aiAssistant win
   \<and> aiAssistant (snd (translate net win text source target)) = aiAssistant win
   \<and> queryAI net (win\<lparr>aiAssistant := a\<rparr>) p =
       (fst (queryAI net win p), (snd (queryAI net win p))\<lparr>aiAssistant := a\<rparr>)
   \<and> lookup parse net now later (win\<lparr>aiAssistant := a\<rparr>) entry source target =
       (fst (lookup parse net now later win entry source target),
        (snd (lookup parse net now later win entry source target))\<lparr>aiAssistant := a\<rparr>)
   \<and> translate net (win\<lparr>aiAssistant := a\<rparr>) text source target =
       (fst (translate net win text source target),
        (snd (translate net win text source target))\<lparr>aiAssistant := a\<rparr>)
   \<and> (dictionary (snd (queryAI net win p)))
        \<lparr>Dictionary.isProcessing := Dictionary.isProcessing (dictionary win)\<rparr> = dictionary win
   \<and> (dictionary (snd (translate net win text source target)))
        \<lparr>Dictionary.isProcessing := Dictionary.isProcessing (dictionary win)\<rparr> = dictionary win
   \<and> (dictionary (snd (lookup parse net now later win entry source target)))
        \<lparr>cache := cache (dictionary win),
         Dictionary.isProcessing := Dictionary.isProcessing (dictionary win)\<rparr> = dictionary win"
proof -
  have 1: "aiAssistant (snd (queryAI_start win p)) = aiAssistant win"
    by (rule frame_unchanged [where f = "\<lambda>w. queryAI_start w p"]) (rule queryAI_start_frame)
  have 2: "aiAssistant (snd (queryAI_finish win outcome)) = aiAssistant win"
    by (rule frame_unchanged [where f = "\<lambda>w. queryAI_finish w outcome"]) (rule queryAI_finish_frame)
  have 3: "aiAssistant (snd (queryAI net win p)) = aiAssistant win"
    by (rule frame_unchanged [where f = "\<lambda>w. queryAI net w p"]) (rule queryAI_frame)
  have 4: "aiAssistant (snd (lookup parse net now later win entry source target)) = aiAssistant win"
    by (rule frame_unchanged [where f = "\<lambda>w. lookup parse net now later w entry source target"])
      (rule lookup_frame)
  have 5: "aiAssistant (snd (translate net win text source target)) = aiAssistant win"
    by (rule frame_unchanged [where f = "\<lambda>w. translate net w text source target"])
      (rule translate_frame)
  show ?thesis
    using 1 2 3 4 5
    by (simp add: queryAI_frame lookup_frame translate_frame queryAI_writes translate_writes
        lookup_writes)
qed

subsection \<open>The cached journey\<close>

lemma journey_from_cache:
  "fresh_entry env ls u = Some p \<Longrightarrow> getUserJourneyWithCache env ls u = (Success p ''cache'', ls)"
  by (auto simp: fresh_entry_def getUserJourneyWithCache_def
      split: option.splits sum.splits if_splits)

lemma journey_unreadable:
  "unreadable_entry env ls u = Some m \<Longrightarrow> getUserJourneyWithCache env ls u = (Failure m, ls)"
  by (auto simp: unreadable_entry_def getUserJourneyWithCache_def
      split: option.splits sum.splits if_splits)

lemma journey_from_firebase:
  "fresh_entry env ls u = None \<Longrightarrow> unreadable_entry env ls u = None \<Longrightarrow>
     getUserJourneyWithCache env ls u = fetch_from_firebase env ls u"
  by (auto simp: fresh_entry_def unreadable_entry_def getUserJourneyWithCache_def
      split: option.splits sum.splits if_splits)

lemma firebase_never_cache: "fst (fetch_from_firebase env ls u) \<noteq> Success p ''cache''"
  by (simp add: fetch_from_firebase_def split: sum.splits option.splits)

lemma fresh_not_unreadable: "fresh_entry env ls u = Some p \<Longrightarrow> unreadable_entry env ls u = None"
  by (auto simp: fresh_entry_def unreadable_entry_def split: option.splits sum.splits if_splits)

text \<open>
  C6, as the code has it. The function returns the cached journey with source \<open>cache\<close>,
  leaving \<open>localStorage\<close> as it is, exactly when the entry under \<open>userJourney_<userId>\<close> is
  there, parses, and is less than five minutes old. When the entry is there but parsing it
  or reading its time throws, the function returns the failure with that message, whatever
  Firestore holds. Otherwise it reads the Firestore document and returns the failure
  \<open>Journey not found\<close> when the document does not exist, the failure with the error's
  message when the read rejects, and else stores the data in \<open>localStorage\<close> and returns it
  with source \<open>firebase\<close>.
\<close>

theorem getUserJourneyWithCache_cases:
  "((\<exists>p. fst (getUserJourneyWithCache env ls u) = Success p ''cache'') = (fresh_entry env ls u \<noteq> None))
   \<and> (fresh_entry env ls u = Some p \<longrightarrow> getUserJourneyWithCache env ls u = (Success p ''cache'', ls))
   \<and> (unreadable_entry env ls u = Some m \<longrightarrow> getUserJourneyWithCache env ls u = (Failure m, ls))
   \<and> (fresh_entry env ls u = None \<and> unreadable_entry env ls u = None \<longrightarrow>
        getUserJourneyWithCache env ls u =
          (case getDoc env u of
             Inl message \<Rightarrow> (Failure message, ls)
           | Inr None \<Rightarrow> (Failure ''Journey not found'', ls)
           | Inr (Some d) \<Rightarrow> (Success d ''firebase'', ls(''userJourney_'' @ u \<mapsto> JSON_stringify env d))))"
proof -
  have 2: "fresh_entry env ls u = Some p \<longrightarrow> getUserJourneyWithCache env ls u = (Success p ''cache'', ls)"
    for p
    using journey_from_cache [of env ls u p] by blast
  have 3: "unreadable_entry env ls u = Some m \<longrightarrow> getUserJourneyWithCache env ls u = (Failure m, ls)"
    using journey_unreadable [of env ls u m] by blast
  have 4: "fresh_entry env ls u = None \<and> unreadable_entry env ls u = None \<longrightarrow>
        getUserJourneyWithCache env ls u =
          (case getDoc env u of
             Inl message \<Rightarrow> (Failure message, ls)
           | Inr None \<Rightarrow> (Failure ''Journey not found'', ls)
           | Inr (Some d) \<Rightarrow> (Success d ''firebase'', ls(''userJourney_'' @ u \<mapsto> JSON_stringify env d)))"
    using journey_from_firebase [of env ls u] by (simp add: fetch_from_firebase_def)
  have 1: "(\<exists>p. fst (getUserJourneyWithCache env ls u) = Success p ''cache'') = (fresh_entry env ls u \<noteq> None)"
  proof (cases "fresh_entry env ls u")
    case (Some q)
    then show ?thesis using journey_from_cache [of env ls u q] by simp
  next
    case None
    show ?thesis
    proof (cases "unreadable_entry env ls u")
      case (Some m')
      then show ?thesis using None journey_unreadable [of env ls u m'] by simp
    next
      case None': None
      show ?thesis
        using None None' journey_from_firebase [of env ls u] firebase_never_cache [of env ls u]
        by simp
    qed
  qed
  show ?thesis using 1 2 [of p] 3 4 by blast
qed

theorem getUserJourneyWithCache_cases_witness:
  "getUserJourneyWithCache (example_browser 200000) [''userJourney_u1'' \<mapsto> ''updated:1000''] ''u1'' =
     (Success ''updated:1000'' ''cache'', [''userJourney_u1'' \<mapsto> ''updated:1000''])
   \<and> getUserJourneyWithCache (example_browser 200000) [''userJourney_u1'' \<mapsto> ''{''] ''u1'' =
     (Failure ''Unexpected end of JSON input'', [''userJourney_u1'' \<mapsto> ''{''])
   \<and> getUserJourneyWithCache (example_browser 400000) [''userJourney_u1'' \<mapsto> ''updated:1000''] ''u1'' =
     (Success ''journey'' ''firebase'', [''userJourney_u1'' \<mapsto> ''journey''])
   \<and> getUserJourneyWithCache (example_browser 400000) Map.empty ''u2'' =
     (Failure ''Journey not found'', Map.empty)"
proof -
  have f1: "fresh_entry (example_browser 200000) [''userJourney_u1'' \<mapsto> ''updated:1000''] ''u1'' =
      Some ''updated:1000''"
    by (simp add: fresh_entry_def example_browser_def)
  have u2: "unreadable_entry (example_browser 200000) [''userJourney_u1'' \<mapsto> ''{''] ''u1'' =
      Some ''Unexpected end of JSON input''"
    by (simp add: unreadable_entry_def example_browser_def)
  have n3: "fresh_entry (example_browser 400000) [''userJourney_u1'' \<mapsto> ''updated:1000''] ''u1'' = None \<and>
      unreadable_entry (example_browser 400000) [''userJourney_u1'' \<mapsto> ''updated:1000''] ''u1'' = None"
    by (simp add: fresh_entry_def unreadable_entry_def example_browser_def)
  have n4: "fresh_entry (example_browser 400000) Map.empty ''u2'' = None \<and>
      unreadable_entry (example_browser 400000) Map.empty ''u2'' = None"
    by (simp add: fresh_entry_def unreadable_entry_def)
  have c1: "getUserJourneyWithCache (example_browser 200000) [''userJourney_u1'' \<mapsto> ''updated:1000''] ''u1'' =
     (Success ''updated:1000'' ''cache'', [''userJourney_u1'' \<mapsto> ''updated:1000''])"
    using getUserJourneyWithCache_cases [where env = "example_browser 200000" and u = "''u1''"
        and ls = "[''userJourney_u1'' \<mapsto> ''updated:1000'']" and p = "''updated:1000''"] f1
    by blast
  have c2: "getUserJourneyWithCache (example_browser 200000) [''userJourney_u1'' \<mapsto> ''{''] ''u1'' =
     (Failure ''Unexpected end of JSON input'', [''userJourney_u1'' \<mapsto> ''{''])"
    using getUserJourneyWithCache_cases [where env = "example_browser 200000" and u = "''u1''"
        and ls = "[''userJourney_u1'' \<mapsto> ''{'']" and m = "''Unexpected end of JSON input''"] u2
    by blast
  have c3: "getUserJourneyWithCache (example_browser 400000) [''userJourney_u1'' \<mapsto> ''updated:1000''] ''u1'' =
     (Success ''journey'' ''firebase'', [''userJourney_u1'' \<mapsto> ''journey''])"
    using getUserJourneyWithCache_cases [where env = "example_browser 400000" and u = "''u1''"
        and ls = "[''userJourney_u1'' \<mapsto> ''updated:1000'']"] n3
    by (simp add: example_browser_def)
  have c4: "getUserJourneyWithCache (example_browser 400000) Map.empty ''u2'' =
     (Failure ''Journey not found'', Map.empty)"
    using getUserJourneyWithCache_cases [where env = "example_browser 400000" and u = "''u2''"
        and ls = "Map.empty"] n4
    by (simp add: example_browser_def)
  show ?thesis using c1 c2 c3 c4 by blast
qed

text \<open>
  C6 as stated fails: with no fresh entry the result need not be one of the two that the
  claim names. A cached entry that does not parse ends the call with the parser's message,
  though the document is in Firestore, and a read of Firestore that rejects ends it with
  the error's message.
\<close>

theorem journey_third_outcome:
  "getUserJourneyWithCache (example_browser 200000) [''userJourney_u1'' \<mapsto> ''{''] ''u1'' =
     (Failure ''Unexpected end of JSON input'', [''userJourney_u1'' \<mapsto> ''{''])
   \<and> getDoc (example_browser 200000) ''u1'' = Inr (Some ''journey'')
   \<and> getUserJourneyWithCache (example_browser 200000) Map.empty ''u3'' =
     (Failure ''client is offline'', Map.empty)"
  by (simp add: getUserJourneyWithCache_def fetch_from_firebase_def example_browser_def)

subsection \<open>Page routing\<close>

lemma pageUrl_own: "map_of pageMap page = Some v \<Longrightarrow> pageUrl page = Own v"
  by (auto simp: pageUrl_def get_property_def or_property_def pageMap_def split: if_splits)

lemma pageUrl_other:
  "map_of pageMap page = None \<Longrightarrow> page \<notin> set Object_prototype \<Longrightarrow>
     pageUrl page = Own ''../pages/home-ai.html''"
  by (simp add: pageUrl_def get_property_def or_property_def pageMap_def)

lemma fetchPageContent_throws:
  "(\<exists>e. fetchPageContent fetch page = Inl e) = (\<not> ok (fetch (pageUrl page)))"
  by (simp add: fetchPageContent_def Let_def)

text \<open>
  C7 at the key \<open>constructor\<close>, which is outside the map: it is not resolved to the URL of
  the home page. \<open>pageMap[page]\<close> is the function inherited from the prototype, which is
  truthy, so \<open>|| pageMap['home']\<close> does not apply and \<open>fetch\<close> is given that function.
\<close>

theorem fetchPageContent_inherited_key:
  "map_of pageMap ''constructor'' = None
   \<and> pageUrl ''constructor'' = Inherited ''constructor''
   \<and> pageUrl ''constructor'' \<noteq> pageUrl ''home''
   \<and> pageUrl ''home'' = Own ''../pages/home-ai.html''
   \<and> pageUrl ''no-such-page'' = Own ''../pages/home-ai.html''
   \<and> fetchPageContent home_only_server ''constructor'' = Inl (Failed_to_fetch_page 404)
   \<and> fetchPageContent home_only_server ''no-such-page'' = Inr ''<main>home</main>''"
  by (simp add: fetchPageContent_def pageUrl_def get_property_def or_property_def pageMap_def
      Object_prototype_def home_only_server_def)

subsection \<open>The parser and its description\<close>

lemma trim_blank: "(trim s = []) = list_all is_whitespace s"
proof
  assume t: "trim s = []"
  have e: "dropWhile is_whitespace (rev (dropWhile is_whitespace s)) = []"
    using t by (simp add: trim_def)
  have "dropWhile is_whitespace s = []"
  proof (rule ccontr)
    assume n: "dropWhile is_whitespace s \<noteq> []"
    then have a: "\<not> is_whitespace (hd (dropWhile is_whitespace s))" by (rule hd_dropWhile)
    have "hd (dropWhile is_whitespace s) \<in> set (rev (dropWhile is_whitespace s))"
      using n by simp
    then have "is_whitespace (hd (dropWhile is_whitespace s))"
      using e by (simp only: dropWhile_eq_Nil_conv)
    then show False using a by simp
  qed
  then have "\<forall>c \<in> set s. is_whitespace c" by (simp only: dropWhile_eq_Nil_conv)
  then show "list_all is_whitespace s" by (simp only: list_all_iff)
next
  assume "list_all is_whitespace s"
  then have "\<forall>c \<in> set s. is_whitespace c" by (simp only: list_all_iff)
  then have "dropWhile is_whitespace s = []" by (simp only: dropWhile_eq_Nil_conv)
  then show "trim s = []" by (simp only: trim_def rev.simps dropWhile.simps)
qed

lemma trim_dropWhile: "trim (dropWhile is_whitespace s) = trim s"
  by (simp add: trim_def)

lemma take_eq_prefix: "(take (length xs) ys = xs) = prefix xs ys"
  by (metis append_eq_conv_conj prefix_def)

lemma regex_test_begins: "regex_test label s = begins_with s label"
  by (induction label s rule: regex_test.induct)
    (auto simp: begins_with_def upper_case_def)

lemma begins_with_prefix: "begins_with s label = prefix (upper_case label) (upper_case s)"
proof -
  have "begins_with s label = (take (length (upper_case label)) (upper_case s) = upper_case label)"
    by (simp add: begins_with_def upper_case_def take_map)
  then show ?thesis by (simp only: take_eq_prefix)
qed

lemma upper_case_label: "upper_case (label_text f) = label_text f"
  by (cases f) (simp_all add: upper_case_def canonical_def)


lemma labels_incomparable: "prefix (label_text f) (label_text g) \<Longrightarrow> f = g"
  by (cases f; cases g; simp)

lemma one_label:
  assumes "begins_with s (label_text f)" and "begins_with s (label_text g)"
  shows "f = g"
proof -
  have "prefix (label_text f) (upper_case s)" and "prefix (label_text g) (upper_case s)"
    using assms by (simp_all add: begins_with_prefix upper_case_label)
  then have "prefix (label_text f) (label_text g) \<or> prefix (label_text g) (label_text f)"
    by (rule prefix_same_cases)
  then show ?thesis using labels_incomparable by blast
qed

lemma every_label_known: "f \<in> set known_labels"
  by (cases f) (simp_all add: known_labels_def)

lemma distinct_known_labels: "distinct known_labels"
  by (simp add: known_labels_def)

lemma label_of_begins: "(label_of s = Some f) = begins_with s (label_text f)"
proof
  assume "label_of s = Some f"
  then show "begins_with s (label_text f)"
    by (auto simp: label_of_def find_Some_iff)
next
  assume b: "begins_with s (label_text f)"
  then have "label_of s \<noteq> None"
    using every_label_known [of f] by (auto simp: label_of_def find_None_iff)
  then obtain g where g: "label_of s = Some g" by blast
  then have "begins_with s (label_text g)" by (auto simp: label_of_def find_Some_iff)
  then have "g = f" using b by (rule one_label)
  then show "label_of s = Some f" using g by simp
qed

text \<open>A sequence of guarded assignments of which at most one guard holds.\<close>

lemma foldl_no_guard:
  "\<forall>f \<in> set fs. \<not> P f \<Longrightarrow> foldl (\<lambda>e f. if P f then S f e else e) ex fs = ex"
  by (induction fs arbitrary: ex) simp_all

lemma foldl_one_guard:
  assumes "distinct fs" and "\<And>f g. P f \<Longrightarrow> P g \<Longrightarrow> f = g"
  shows "foldl (\<lambda>e f. if P f then S f e else e) ex fs =
           (case find P fs of None \<Rightarrow> ex | Some f \<Rightarrow> S f ex)"
  using assms(1)
proof (induction fs arbitrary: ex)
  case Nil
  then show ?case by simp
next
  case (Cons f fs)
  show ?case
  proof (cases "P f")
    case True
    have "\<forall>g \<in> set fs. \<not> P g" using Cons.prems True assms(2) by auto
    then show ?thesis using True by (simp add: foldl_no_guard)
  next
    case False
    then show ?thesis using Cons by simp
  qed
qed

lemma store_fun:
  "store QUESTION = (\<lambda>v e. e\<lparr>question := Some v\<rparr>)"
  "store ANSWER = (\<lambda>v e. e\<lparr>answer := Some v\<rparr>)"
  "store WORD = (\<lambda>v e. e\<lparr>word := Some v\<rparr>)"
  "store DEFINITION = (\<lambda>v e. e\<lparr>definition := Some v\<rparr>)"
  "store OPTIONS = (\<lambda>v e. e\<lparr>options := Some (split_trimmed v)\<rparr>)"
  "store WORDS = (\<lambda>v e. e\<lparr>words := Some (split_trimmed v)\<rparr>)"
  "store SENTENCE = (\<lambda>v e. e\<lparr>sentence := Some v\<rparr>)"
  "store CORRECT = (\<lambda>v e. e\<lparr>correct := Some v\<rparr>)"
  "store EXPLANATION = (\<lambda>v e. e\<lparr>explanation := Some v\<rparr>)"
  "store TRANSLATION = (\<lambda>v e. e\<lparr>translation := Some v\<rparr>)"
  "store EXAMPLE = (\<lambda>v e. e\<lparr>example := Some v\<rparr>)"
  "store SCENARIO = (\<lambda>v e. e\<lparr>scenario := Some v\<rparr>)"
  "store PROMPT = (\<lambda>v e. e\<lparr>prompt := Some v\<rparr>)"
  "store SAMPLE_ANSWER = (\<lambda>v e. e\<lparr>sampleAnswer := Some v\<rparr>)"
  "store TIP = (\<lambda>v e. e\<lparr>tip := Some v\<rparr>)"
  "store AUDIO_TEXT = (\<lambda>v e. e\<lparr>audioText := Some v\<rparr>)"
  "store ERROR_TYPE = (\<lambda>v e. e\<lparr>errorType := Some v\<rparr>)"
  by (simp_all add: fun_eq_iff split_trimmed_def bar_list_def)

lemma parse_line_fold:
  "parse_line ex line =
     foldl (\<lambda>e f. on_label (label_text f) (store f) (trim line) e) ex known_labels"
  by (simp add: parse_line_def Let_def known_labels_def store_fun)

lemma on_label_described:
  "on_label (label_text f) (store f) t e =
     (if begins_with t (label_text f) then store f (trim (drop (length (label_text f)) t)) e else e)"
  by (simp add: on_label_def regex_replace_def regex_test_begins trim_dropWhile)

lemma parse_line_described: "parse_line ex line = described_line ex line"
proof -
  have "parse_line ex line =
      foldl (\<lambda>e f. if begins_with (trim line) (label_text f)
                    then store f (trim (drop (length (label_text f)) (trim line))) e else e)
        ex known_labels"
    by (simp add: parse_line_fold on_label_described)
  also have "\<dots> = (case find (\<lambda>f. begins_with (trim line) (label_text f)) known_labels of
                      None \<Rightarrow> ex
                    | Some f \<Rightarrow> store f (trim (drop (length (label_text f)) (trim line))) ex)"
    by (rule foldl_one_guard [OF distinct_known_labels]) (rule one_label)
  finally show ?thesis by (simp add: described_line_def label_of_def)
qed

lemma lines_described:
  "filter (\<lambda>line. trim line \<noteq> []) (split CHR 0x0A response) = non_blank_lines response"
  by (simp add: non_blank_lines_def trim_blank)

lemma startsWith_prefix: "startsWith s p = prefix p s"
  by (simp add: startsWith_def take_eq_prefix)

lemma fall_back_code:
  "(let meaningfulLines = filter (\<lambda>l. length l > 10 \<and> \<not> startsWith l ''//'') lines
    in if length meaningfulLines > 0
       then (let ex1 = ex\<lparr>question := Some (meaningfulLines ! 0)\<rparr>
             in if length meaningfulLines > 1
                then ex1\<lparr>answer := Some (meaningfulLines ! 1)\<rparr>
                else ex1)
       else ex) = fall_back lines ex"
proof (cases "filter (\<lambda>l. length l > 10 \<and> \<not> prefix ''//'' l) lines")
  case Nil
  then show ?thesis by (simp add: fall_back_def startsWith_prefix)
next
  case (Cons q rest)
  then show ?thesis by (cases rest) (simp_all add: fall_back_def startsWith_prefix)
qed

lemma falsy_unset_or_empty: "falsy v = unset_or_empty v"
  by (cases v) (simp_all add: falsy_def unset_or_empty_def)

text \<open>
  C2, as the code has it. For every response and exercise type, \<open>parseAIResponse\<close> is the
  described parser: it splits the response into its non-blank lines; for each line that,
  without the white space around it, begins with a known label in any case, it stores the
  trimmed remainder in the label's field, for OPTIONS and WORDS the list of the non-empty
  trimmed pieces between bars; and if after this pass each of question, word, sentence and
  prompt is unset or the empty string, it takes the first line longer than 10 characters that
  does not start with \<open>//\<close> as the question and the next such line, when there is one, as
  the answer.
\<close>

theorem parseAIResponse_described:
  "parseAIResponse response exerciseType = described_parse unset_or_empty response exerciseType"
proof -
  have "parse_line = described_line" by (simp add: fun_eq_iff parse_line_described)
  then show ?thesis
    unfolding parseAIResponse_def described_parse_def lines_described fall_back_code
      falsy_unset_or_empty
    by (simp add: Let_def)
qed

lemma listening_lines:
  "non_blank_lines listening_response =
     [''  question: Which city is meant? '', ''OPTIONS: Paris | Rome || Oslo '', ''Answer: 1'']"
  by (simp add: non_blank_lines_def listening_response_def is_whitespace_def)

lemma listening_first_line:
  "described_line ex ''  question: Which city is meant? '' =
     ex\<lparr>question := Some ''Which city is meant?''\<rparr>"
proof -
  have t: "trim ''  question: Which city is meant? '' = ''question: Which city is meant?''"
    by (simp add: trim_def is_whitespace_def)
  have "begins_with ''question: Which city is meant?'' (label_text QUESTION)"
    by (simp add: begins_with_def upper_case_def canonical_def)
  then have l: "label_of ''question: Which city is meant?'' = Some QUESTION"
    by (simp only: label_of_begins)
  have r: "trim '' Which city is meant?'' = ''Which city is meant?''"
    by (simp add: trim_def is_whitespace_def)
  show ?thesis by (simp add: described_line_def t l r)
qed

lemma listening_second_line:
  "described_line ex ''OPTIONS: Paris | Rome || Oslo '' =
     ex\<lparr>options := Some [''Paris'', ''Rome'', ''Oslo'']\<rparr>"
proof -
  have t: "trim ''OPTIONS: Paris | Rome || Oslo '' = ''OPTIONS: Paris | Rome || Oslo''"
    by (simp add: trim_def is_whitespace_def)
  have "begins_with ''OPTIONS: Paris | Rome || Oslo'' (label_text OPTIONS)"
    by (simp add: begins_with_def upper_case_def canonical_def)
  then have l: "label_of ''OPTIONS: Paris | Rome || Oslo'' = Some OPTIONS"
    by (simp only: label_of_begins)
  have r: "trim '' Paris | Rome || Oslo'' = ''Paris | Rome || Oslo''"
    by (simp add: trim_def is_whitespace_def)
  have b: "bar_list ''Paris | Rome || Oslo'' = [''Paris'', ''Rome'', ''Oslo'']"
    by (simp add: bar_list_def trim_def is_whitespace_def)
  show ?thesis by (simp add: described_line_def t l r b)
qed

lemma listening_third_line:
  "described_line ex ''Answer: 1'' = ex\<lparr>answer := Some ''1''\<rparr>"
proof -
  have t: "trim ''Answer: 1'' = ''Answer: 1''"
    by (simp add: trim_def is_whitespace_def)
  have "begins_with ''Answer: 1'' (label_text ANSWER)"
    by (simp add: begins_with_def upper_case_def canonical_def)
  then have l: "label_of ''Answer: 1'' = Some ANSWER"
    by (simp only: label_of_begins)
  have r: "trim '' 1'' = ''1''"
    by (simp add: trim_def is_whitespace_def)
  show ?thesis by (simp add: described_line_def t l r)
qed

theorem parseAIResponse_described_witness:
  "parseAIResponse listening_response ''listening'' =
     (new_exercise listening_response ''listening'')
       \<lparr>question := Some ''Which city is meant?'',
        options := Some [''Paris'', ''Rome'', ''Oslo''],
        answer := Some ''1''\<rparr>"
proof -
  have "described_parse unset_or_empty listening_response ''listening'' =
     (new_exercise listening_response ''listening'')
       \<lparr>question := Some ''Which city is meant?'',
        options := Some [''Paris'', ''Rome'', ''Oslo''],
        answer := Some ''1''\<rparr>"
    by (simp add: described_parse_def listening_lines listening_first_line listening_second_line
        listening_third_line unset_or_empty_def Let_def)
  then show ?thesis
    using parseAIResponse_described [of listening_response "''listening''"] by simp
qed

lemma example_lines:
  "non_blank_lines empty_question_response = [''QUESTION:'', ''What is the capital of France?'']"
  by (simp add: non_blank_lines_def empty_question_response_def is_whitespace_def)

lemma trim_Nil: "trim [] = []"
  by (simp add: trim_def)

lemma example_first_line:
  "described_line ex ''QUESTION:'' = ex\<lparr>question := Some []\<rparr>"
proof -
  have t: "trim ''QUESTION:'' = ''QUESTION:''" by (simp add: trim_def is_whitespace_def)
  have "begins_with ''QUESTION:'' (label_text QUESTION)"
    by (simp add: begins_with_def)
  then have "label_of ''QUESTION:'' = Some QUESTION" by (simp only: label_of_begins)
  then show ?thesis by (simp add: described_line_def t trim_Nil)
qed

lemma example_second_line:
  "described_line ex ''What is the capital of France?'' = ex"
proof -
  have t: "trim ''What is the capital of France?'' = ''What is the capital of France?''"
    by (simp add: trim_def is_whitespace_def)
  have "label_of ''What is the capital of France?'' = None"
    by (simp add: label_of_def known_labels_def begins_with_def upper_case_def canonical_def)
  then show ?thesis by (simp add: described_line_def t)
qed

text \<open>
  C2 as stated fails where the claim makes the fallback depend on a field being set: a line
  \<open>QUESTION:\<close> with nothing after it sets the question to the empty string, and the
  fallback still replaces it, since the code tests the fields for being falsy. The parser
  described with \<open>never set\<close> would keep the empty question.
\<close>

theorem empty_label_still_falls_back:
  "question (parseAIResponse empty_question_response ''translation'') =
     Some ''What is the capital of France?''
   \<and> question (described_parse never_set empty_question_response ''translation'') = Some []"
proof -
  have l: "filter (\<lambda>line. trim line \<noteq> []) (split CHR 0x0A empty_question_response) =
      [''QUESTION:'', ''What is the capital of France?'']"
    by (simp only: lines_described example_lines)
  have a: "question (parseAIResponse empty_question_response ''translation'') =
     Some ''What is the capital of France?''"
    by (simp add: parseAIResponse_def l parse_line_described example_first_line
        example_second_line new_exercise_def falsy_def startsWith_def Let_def)
  have b: "question (described_parse never_set empty_question_response ''translation'') = Some []"
    by (simp add: described_parse_def example_lines example_first_line example_second_line
        new_exercise_def never_set_def Let_def)
  show ?thesis using a b by simp
qed

end
